theory Spec2Isabelle
  imports Complex_Main
begin

section \<open>Python values\<close>

text \<open>
  Confidences and thresholds are finite floats, modelled by the real numbers they
  denote; where the code rounds (a cast to single precision, an addition or a division
  in double precision) the model rounds with the functions below. Box coordinates are
  only copied from the detector's arrays into the result, so they keep every value a
  float can have, the non-finite ones included.
\<close>

datatype coord = Finite real | PosInf | NegInf | NaN

type_synonym box = "coord list"

datatype error = IndexError | KeyError | ValueError

definition err_bind :: "error + 'a \<Rightarrow> ('a \<Rightarrow> error + 'b) \<Rightarrow> error + 'b" where
  "err_bind m f = (case m of Inl e \<Rightarrow> Inl e | Inr x \<Rightarrow> f x)"

subsection \<open>Binary floating point\<close>

text \<open>Rounding to the nearest integer, a tie to the even one.\<close>

definition round_half_even :: "real \<Rightarrow> int" where
  "round_half_even x =
     (let n = \<lfloor>x\<rfloor>; r = x - of_int n
      in if r < 1 / 2 then n else if 1 / 2 < r then n + 1 else if even n then n else n + 1)"

text \<open>
  Rounding a positive real to \<open>p\<close> significant bits: the number is doubled or halved
  until it lies in \<open>[2^(p-1), 2^p)\<close>, rounded to an integer there and scaled back. It is
  doubled at most \<open>n\<close> times: a number that is still below \<open>2^(p-1)\<close> then is
  subnormal and is rounded on the finest grid of the format. A number too large for the
  format, which a float would turn into infinity, is outside the model.
\<close>

fun round_small :: "nat \<Rightarrow> nat \<Rightarrow> real \<Rightarrow> real" where
  "round_small p 0 x = of_int (round_half_even x)"
| "round_small p (Suc n) x =
     (if x < 2 ^ (p - 1) then round_small p n (2 * x) / 2 else of_int (round_half_even x))"

fun round_large :: "nat \<Rightarrow> nat \<Rightarrow> real \<Rightarrow> real" where
  "round_large p 0 x = of_int (round_half_even x)"
| "round_large p (Suc n) x =
     (if 2 ^ p \<le> x then round_large p n (x / 2) * 2 else of_int (round_half_even x))"

definition round_magnitude :: "nat \<Rightarrow> nat \<Rightarrow> nat \<Rightarrow> real \<Rightarrow> real" where
  "round_magnitude p down up x =
     (if 2 ^ p \<le> x then round_large p up x else round_small p down x)"

definition round_nearest :: "nat \<Rightarrow> nat \<Rightarrow> nat \<Rightarrow> real \<Rightarrow> real" where
  "round_nearest p down up x =
     (if x = 0 then 0
      else if x < 0 then - round_magnitude p down up (- x)
      else round_magnitude p down up x)"

text \<open>
  Single precision has 24 significant bits and the finest grid \<open>2^-149\<close>, double
  precision 53 bits and \<open>2^-1074\<close>.
\<close>

definition float32 :: "real \<Rightarrow> real" where
  "float32 x = round_nearest 24 149 104 x"

definition float64 :: "real \<Rightarrow> real" where
  "float64 x = round_nearest 53 1074 971 x"

text \<open>Addition and division of Python floats: the exact result, rounded.\<close>

definition fadd :: "real \<Rightarrow> real \<Rightarrow> real" where
  "fadd a b = float64 (a + b)"

definition fdiv :: "real \<Rightarrow> real \<Rightarrow> real" where
  "fdiv a b = float64 (a / b)"

text \<open>\<^verbatim>\<open>sum(xs)\<close> on floats adds from the left, starting with \<open>0\<close>.\<close>

definition py_sum :: "real list \<Rightarrow> real" where
  "py_sum xs = foldl fadd 0 xs"

text \<open>\<^verbatim>\<open>int(x)\<close> on a float truncates towards zero.\<close>

definition py_int :: "real \<Rightarrow> int" where
  "py_int x = (if 0 \<le> x then \<lfloor>x\<rfloor> else \<lceil>x\<rceil>)"

text \<open>
  \<^verbatim>\<open>arr[mask]\<close> with a boolean numpy mask keeps the rows whose mask entry is true and
  raises IndexError when the mask is not as long as the array.
\<close>

definition np_mask_index :: "'a list \<Rightarrow> bool list \<Rightarrow> error + 'a list" where
  "np_mask_index arr m =
     (if length m \<noteq> length arr then Inl IndexError
      else Inr (map fst (filter snd (zip arr m))))"

section \<open>The unified detection format (app/services/ml\_service.py)\<close>

text \<open>One entry of the \<^verbatim>\<open>'detections'\<close> list of a result.\<close>

record detection =
  det_xyxy :: box
  det_confidence :: real
  det_class_id :: int
  det_class_name :: string

text \<open>The dictionary \<^verbatim>\<open>{'detections': ..., 'confidence': ..., 'model': ...}\<close>.\<close>

record predict_result =
  res_detections :: "detection list"
  res_confidence :: real
  res_model :: string

subsection \<open>MLService.predict\_rfdetr\<close>

text \<open>
  What \<^verbatim>\<open>model.predict(str(image_path))\<close> returns for RF-DETR: an object with the
  optional arrays \<^verbatim>\<open>xyxy\<close>, \<^verbatim>\<open>confidence\<close>, \<^verbatim>\<open>class_id\<close>,
  \<^verbatim>\<open>mask\<close> and \<^verbatim>\<open>tracker_id\<close> (each \<^verbatim>\<open>None\<close> or an array with one row
  per candidate). The fields \<^verbatim>\<open>data\<close> and \<^verbatim>\<open>metadata\<close> are copied and never read
  again, so they are left out.
\<close>

record rf_detections =
  rf_xyxy :: "box list option"
  rf_confidence :: "real list option"
  rf_class_id :: "int list option"
  rf_mask :: "nat list option"
  rf_tracker_id :: "int list option"

text \<open>
  \<^verbatim>\<open>a[mask].tolist() if a is not None and len(a) > 0 else []\<close>
\<close>

definition masked_tolist :: "'a list option \<Rightarrow> bool list \<Rightarrow> error + 'a list" where
  "masked_tolist a m =
     (case a of
        None \<Rightarrow> Inr []
      | Some arr \<Rightarrow> if length arr > 0 then np_mask_index arr m else Inr [])"

text \<open>
  \<^verbatim>\<open>a[mask] if a is not None and len(a) > 0 else None\<close>
\<close>

definition masked_or_none :: "'a list option \<Rightarrow> bool list \<Rightarrow> error + 'a list option" where
  "masked_or_none a m =
     (case a of
        None \<Rightarrow> Inr None
      | Some arr \<Rightarrow>
          if length arr > 0 then err_bind (np_mask_index arr m) (\<lambda>r. Inr (Some r))
          else Inr None)"

text \<open>
  \<^verbatim>\<open>a.tolist() if a is not None and len(a) > 0 else []\<close>
\<close>

definition tolist_or_empty :: "'a list option \<Rightarrow> 'a list" where
  "tolist_or_empty a = (case a of None \<Rightarrow> [] | Some arr \<Rightarrow> arr)"

text \<open>The dictionary \<^verbatim>\<open>filtered_detections\<close>.\<close>

record filtered =
  f_xyxy :: "box list"
  f_confidence :: "real list"
  f_class_id :: "int list"
  f_mask :: "nat list option"
  f_tracker_id :: "int list option"

text \<open>
  The filter by confidence threshold: the first branch when \<^verbatim>\<open>detections.confidence\<close> is
  an array with at least one entry, the second one otherwise. The array holds single
  precision numbers, and numpy compares it with the threshold cast to single precision.
  The entries of the dictionary are evaluated in the order they are written.
\<close>

definition filter_detections :: "rf_detections \<Rightarrow> real \<Rightarrow> error + filtered" where
  "filter_detections detections confidence_threshold =
     (case rf_confidence detections of
        Some conf \<Rightarrow>
          if length conf > 0 then
            (let m = map (\<lambda>c. float32 confidence_threshold \<le> c) conf in
             err_bind (masked_tolist (rf_xyxy detections) m) (\<lambda>xs.
             err_bind (masked_tolist (rf_confidence detections) m) (\<lambda>cs.
             err_bind (masked_tolist (rf_class_id detections) m) (\<lambda>ks.
             err_bind (masked_or_none (rf_mask detections) m) (\<lambda>ms.
             err_bind (masked_or_none (rf_tracker_id detections) m) (\<lambda>ts.
             Inr \<lparr>f_xyxy = xs, f_confidence = cs, f_class_id = ks,
                  f_mask = ms, f_tracker_id = ts\<rparr>))))))
          else
            Inr \<lparr>f_xyxy = tolist_or_empty (rf_xyxy detections),
                 f_confidence = tolist_or_empty (rf_confidence detections),
                 f_class_id = tolist_or_empty (rf_class_id detections),
                 f_mask = rf_mask detections,
                 f_tracker_id = rf_tracker_id detections\<rparr>
      | None \<Rightarrow>
          Inr \<lparr>f_xyxy = tolist_or_empty (rf_xyxy detections),
               f_confidence = tolist_or_empty (rf_confidence detections),
               f_class_id = tolist_or_empty (rf_class_id detections),
               f_mask = rf_mask detections,
               f_tracker_id = rf_tracker_id detections\<rparr>)"

text \<open>
  \<^verbatim>\<open>sum(confidences) / len(confidences) if confidences else 0.0\<close>
\<close>

definition avg_confidence :: "real list \<Rightarrow> real" where
  "avg_confidence confidences =
     (if confidences \<noteq> [] then fdiv (py_sum confidences) (real (length confidences))
      else 0)"

text \<open>
  The loop over \<^verbatim>\<open>range(len(xyxy_list))\<close> that builds one detection for every index
  that also has a confidence.
\<close>

definition detections_list ::
  "box list \<Rightarrow> real list \<Rightarrow> int list \<Rightarrow> detection list" where
  "detections_list xyxy_list confidences class_id_list =
     map (\<lambda>i. \<lparr>det_xyxy = xyxy_list ! i,
               det_confidence = confidences ! i,
               det_class_id = (if i < length class_id_list then class_id_list ! i else 0),
               det_class_name = ''item''\<rparr>)
         (filter (\<lambda>i. i < length confidences) [0..<length xyxy_list])"

definition predict_rfdetr :: "rf_detections \<Rightarrow> real \<Rightarrow> error + predict_result" where
  "predict_rfdetr detections confidence_threshold =
     err_bind (filter_detections detections confidence_threshold) (\<lambda>fd.
       Inr \<lparr>res_detections =
              detections_list (f_xyxy fd) (f_confidence fd) (f_class_id fd),
            res_confidence = avg_confidence (f_confidence fd),
            res_model = ''rfdetr''\<rparr>)"

subsection \<open>MLService.predict\_yolo\<close>

text \<open>
  One element of what \<^verbatim>\<open>model.predict(source, conf, save, show)\<close> returns for YOLO:
  \<^verbatim>\<open>result.boxes\<close> (\<^verbatim>\<open>None\<close>, or rows that each hold a box, a confidence and a
  class number; \<^verbatim>\<open>boxes.xyxy\<close>, \<^verbatim>\<open>boxes.conf\<close> and \<^verbatim>\<open>boxes.cls\<close> are columns
  of these rows) and the dictionary \<^verbatim>\<open>result.names\<close>.
\<close>

type_synonym yolo_row = "box \<times> real \<times> real"

record yolo_result =
  yr_boxes :: "yolo_row list option"
  yr_names :: "int \<rightharpoonup> string"

definition yolo_detection :: "(int \<rightharpoonup> string) \<Rightarrow> yolo_row \<Rightarrow> error + detection" where
  "yolo_detection names row =
     (case row of (b, conf, cls) \<Rightarrow>
        (case names (py_int cls) of
           None \<Rightarrow> Inl KeyError
         | Some n \<Rightarrow>
             Inr \<lparr>det_xyxy = b, det_confidence = conf,
                  det_class_id = py_int cls, det_class_name = n\<rparr>))"

text \<open>The inner loop over \<^verbatim>\<open>range(len(result.boxes))\<close>.\<close>

fun collect_rows :: "(int \<rightharpoonup> string) \<Rightarrow> yolo_row list \<Rightarrow> error + detection list" where
  "collect_rows names [] = Inr []"
| "collect_rows names (row # rows) =
     err_bind (yolo_detection names row) (\<lambda>d.
     err_bind (collect_rows names rows) (\<lambda>ds. Inr (d # ds)))"

text \<open>The outer loop over \<^verbatim>\<open>results\<close>.\<close>

fun collect_detections :: "yolo_result list \<Rightarrow> error + detection list" where
  "collect_detections [] = Inr []"
| "collect_detections (result # results) =
     err_bind
       (case yr_boxes result of
          None \<Rightarrow> Inr []
        | Some rows \<Rightarrow> if length rows > 0 then collect_rows (yr_names result) rows else Inr [])
       (\<lambda>ds. err_bind (collect_detections results) (\<lambda>rest. Inr (ds @ rest)))"

text \<open>
  The backend is the function \<^verbatim>\<open>model.predict\<close> of the confidence floor (for the image
  at hand); the threshold is handed to it and used nowhere else.
\<close>

definition predict_yolo :: "(real \<Rightarrow> yolo_result list) \<Rightarrow> real \<Rightarrow> error + predict_result" where
  "predict_yolo model_predict confidence_threshold =
     err_bind (collect_detections (model_predict confidence_threshold)) (\<lambda>detections.
       Inr \<lparr>res_detections = detections,
            res_confidence = avg_confidence (map det_confidence detections),
            res_model = ''yolo''\<rparr>)"

section \<open>The store (DB/schema.py, DB/crud.py)\<close>

text \<open>
  The tables \<^verbatim>\<open>users\<close> and \<^verbatim>\<open>predictions\<close>. A nullable column is an option; the
  columns \<^verbatim>\<open>model\<close> and \<^verbatim>\<open>results\<close> are declared \<^verbatim>\<open>nullable=False\<close>. The JSON column
  \<^verbatim>\<open>results\<close> holds either one result dictionary or a dictionary of result
  dictionaries by detector name. Timestamps are integers.
\<close>

record user =
  u_id :: string
  u_username :: string
  u_password_hash :: string
  u_email :: "string option"
  u_created_at :: int
  u_is_active :: bool
  u_is_superuser :: bool

datatype results_json =
  SingleResult predict_result
| CombinedResults "(string \<times> predict_result) list"

record prediction =
  p_id :: string
  p_user_id :: "string option"
  p_model :: string
  p_image_url :: "string option"
  p_image_base64 :: "string option"
  p_image_hash :: "string option"
  p_results :: results_json
  p_confidence :: "real option"
  p_rfdetr_confidence :: "real option"
  p_yolo_confidence :: "real option"
  p_confidence_threshold :: "real option"
  p_rfdetr_threshold :: "real option"
  p_yolo_threshold :: "real option"
  p_comment :: "string option"
  p_created_at :: int

text \<open>
  The session \<^verbatim>\<open>db\<close>: the rows of both tables, the predictions in the order they were
  inserted. The engine's own failures (a lost connection, a rejected row) are not
  modelled; the CRUD functions have no failure branch of their own.
\<close>

record database =
  users :: "user list"
  predictions :: "prediction list"

subsection \<open>PredictionCRUD.create\_prediction\<close>

text \<open>
  The column defaults \<^verbatim>\<open>str(uuid.uuid4())\<close> and \<^verbatim>\<open>datetime.utcnow\<close> are supplied by the
  environment: they are the last two arguments.
\<close>

definition create_prediction ::
  "database \<Rightarrow> string \<Rightarrow> results_json \<Rightarrow> string option \<Rightarrow> string option \<Rightarrow> string option \<Rightarrow>
   string option \<Rightarrow> real option \<Rightarrow> real option \<Rightarrow> real option \<Rightarrow> real option \<Rightarrow> real option \<Rightarrow>
   real option \<Rightarrow> string option \<Rightarrow> string \<Rightarrow> int \<Rightarrow> database \<times> prediction" where
  "create_prediction db model results user_id image_url image_base64 image_hash confidence
     rfdetr_confidence yolo_confidence confidence_threshold rfdetr_threshold yolo_threshold
     comment new_id now =
     (let prediction =
        \<lparr>p_id = new_id, p_user_id = user_id, p_model = model, p_image_url = image_url,
         p_image_base64 = image_base64, p_image_hash = image_hash, p_results = results,
         p_confidence = confidence, p_rfdetr_confidence = rfdetr_confidence,
         p_yolo_confidence = yolo_confidence, p_confidence_threshold = confidence_threshold,
         p_rfdetr_threshold = rfdetr_threshold, p_yolo_threshold = yolo_threshold,
         p_comment = comment, p_created_at = now\<rparr>
      in (db\<lparr>predictions := predictions db @ [prediction]\<rparr>, prediction))"

subsection \<open>PredictionCRUD.get\_predictions\<close>

text \<open>Python truth of an optional string: \<^verbatim>\<open>None\<close> and the empty string are false.\<close>

definition truthy :: "string option \<Rightarrow> bool" where
  "truthy s = (case s of None \<Rightarrow> False | Some t \<Rightarrow> t \<noteq> [])"

text \<open>
  A row passes a SQL \<^verbatim>\<open>WHERE\<close> clause only when the clause is true; a comparison with
  \<^verbatim>\<open>NULL\<close> is not.
\<close>

definition sql_eq :: "'a option \<Rightarrow> 'a \<Rightarrow> bool" where
  "sql_eq column v = (case column of None \<Rightarrow> False | Some c \<Rightarrow> c = v)"

definition sql_ge :: "real option \<Rightarrow> real \<Rightarrow> bool" where
  "sql_ge column v = (case column of None \<Rightarrow> False | Some c \<Rightarrow> v \<le> c)"

definition sql_le :: "real option \<Rightarrow> real \<Rightarrow> bool" where
  "sql_le column v = (case column of None \<Rightarrow> False | Some c \<Rightarrow> c \<le> v)"

text \<open>
  \<^verbatim>\<open>column.ilike(pattern)\<close>: the engine's case-insensitive pattern match on text is a
  parameter (\<open>like\<close>).
\<close>

definition sql_ilike :: "(string \<Rightarrow> string \<Rightarrow> bool) \<Rightarrow> string option \<Rightarrow> string \<Rightarrow> bool" where
  "sql_ilike like column pattern = (case column of None \<Rightarrow> False | Some c \<Rightarrow> like c pattern)"

text \<open>The outer join with \<^verbatim>\<open>users\<close> on \<^verbatim>\<open>Prediction.user_id == User.id\<close>.\<close>

definition joined_username :: "user list \<Rightarrow> prediction \<Rightarrow> string option" where
  "joined_username us p =
     (case p_user_id p of
        None \<Rightarrow> None
      | Some uid \<Rightarrow> map_option u_username (find (\<lambda>u. u_id u = uid) us))"

definition user_filter :: "string option \<Rightarrow> prediction \<Rightarrow> bool" where
  "user_filter user_id p = (if truthy user_id then sql_eq (p_user_id p) (the user_id) else True)"

definition model_filter :: "string option \<Rightarrow> prediction \<Rightarrow> bool" where
  "model_filter model p =
     (if truthy model \<and> model \<noteq> Some ''all'' then p_model p = the model else True)"

definition search_filter ::
  "(string \<Rightarrow> string \<Rightarrow> bool) \<Rightarrow> user list \<Rightarrow> string option \<Rightarrow> prediction \<Rightarrow> bool" where
  "search_filter like us search_text p =
     (if truthy search_text then
        (let pattern = ''%'' @ the search_text @ ''%'' in
           sql_ilike like (p_comment p) pattern \<or>
           sql_ilike like (joined_username us p) pattern \<or>
           sql_ilike like (Some (p_id p)) pattern)
      else True)"

definition confidence_filter :: "real option \<Rightarrow> real option \<Rightarrow> prediction \<Rightarrow> bool" where
  "confidence_filter min_confidence max_confidence p =
     ((case min_confidence of None \<Rightarrow> True | Some lo \<Rightarrow> sql_ge (p_confidence p) lo) \<and>
      (case max_confidence of None \<Rightarrow> True | Some hi \<Rightarrow> sql_le (p_confidence p) hi))"

text \<open>
  The query: the filters, \<^verbatim>\<open>order_by(desc(created_at))\<close>, \<^verbatim>\<open>offset(skip)\<close> and
  \<^verbatim>\<open>limit(limit)\<close>. The query gives no order for rows with the same timestamp and the
  engine is free there; the model keeps them in table order, and no statement below
  depends on that choice. The only caller is the route below, which passes \<open>skip\<close> and
  \<open>limit\<close> after their validation, so they are natural numbers here.
\<close>

definition get_predictions ::
  "(string \<Rightarrow> string \<Rightarrow> bool) \<Rightarrow> database \<Rightarrow> nat \<Rightarrow> nat \<Rightarrow> string option \<Rightarrow> string option \<Rightarrow>
   string option \<Rightarrow> real option \<Rightarrow> real option \<Rightarrow> prediction list" where
  "get_predictions like db skip limit user_id model search_text min_confidence max_confidence =
     take limit (drop skip
       (sort_key (\<lambda>p. - p_created_at p)
         (filter (\<lambda>p. user_filter user_id p \<and> model_filter model p \<and>
                      search_filter like (users db) search_text p \<and>
                      confidence_filter min_confidence max_confidence p)
            (predictions db))))"

subsection \<open>PredictionCRUD.update\_prediction\_comment\<close>

text \<open>
  The row with the given primary key is loaded, its \<^verbatim>\<open>comment\<close> is assigned and the
  commit writes it back (\<^verbatim>\<open>UPDATE predictions SET comment = ... WHERE id = ...\<close>).
\<close>

definition update_prediction_comment ::
  "database \<Rightarrow> string \<Rightarrow> string \<Rightarrow> database \<times> prediction option" where
  "update_prediction_comment db prediction_id comment =
     (case find (\<lambda>p. p_id p = prediction_id) (predictions db) of
        None \<Rightarrow> (db, None)
      | Some prediction \<Rightarrow>
          (db\<lparr>predictions :=
                map (\<lambda>p. if p_id p = prediction_id then p\<lparr>p_comment := Some comment\<rparr> else p)
                  (predictions db)\<rparr>,
           Some (prediction\<lparr>p_comment := Some comment\<rparr>)))"

section \<open>The routes (app/routers.py)\<close>

text \<open>
  A route ends with a response or with an HTTP error: 422 when FastAPI rejects a
  parameter that violates its declared constraint, 404 for an unknown identifier, 500
  when the handler catches an exception.
\<close>

datatype http_error = RequestValidationError | NotFound | InternalServerError error

text \<open>
  \<^verbatim>\<open>JSONResponse(content=...)\<close> renders its content when it is built and refuses
  non-finite floats: content that holds one raises ValueError, which the handler
  catches. Of the floats in a result only box coordinates can be non-finite here.
\<close>

definition finite_coord :: "coord \<Rightarrow> bool" where
  "finite_coord c = (case c of Finite x \<Rightarrow> True | PosInf \<Rightarrow> False | NegInf \<Rightarrow> False | NaN \<Rightarrow> False)"

definition result_renders :: "predict_result \<Rightarrow> bool" where
  "result_renders r = list_all (\<lambda>d. list_all finite_coord (det_xyxy d)) (res_detections r)"

definition json_renders :: "results_json \<Rightarrow> bool" where
  "json_renders results =
     (case results of
        SingleResult r \<Rightarrow> result_renders r
      | CombinedResults rs \<Rightarrow> list_all (\<lambda>kr. result_renders (snd kr)) rs)"

definition json_response :: "bool \<Rightarrow> 'a \<Rightarrow> http_error + 'a" where
  "json_response renders body =
     (if renders then Inr body else Inl (InternalServerError ValueError))"

subsection \<open>The prediction routes\<close>

text \<open>
  The responses of a prediction route: the duplicate notice with \<^verbatim>\<open>duplicate_id\<close>, or
  the results with \<^verbatim>\<open>prediction_id\<close> and \<^verbatim>\<open>image_base64\<close> added.
\<close>

datatype predict_response =
  Duplicate string
| Predicted results_json string string

text \<open>
  The routes are modelled from the point where the upload has been validated and
  written to the temporary file. The detector's raw output for the image, the base64
  text of the image and its SHA-256 digest are arguments. The normaliser runs first; an
  exception of it is caught by the handler and becomes the HTTP error 500. The
  duplicate lookup follows, then the insertion, and last the response is rendered: when
  that fails the row has been committed already.
\<close>

definition duplicate_rfdetr :: "string \<Rightarrow> real \<Rightarrow> prediction \<Rightarrow> bool" where
  "duplicate_rfdetr image_hash confidence_threshold p =
     (sql_eq (p_image_hash p) image_hash \<and> p_model p = ''rfdetr'' \<and>
      sql_eq (p_rfdetr_threshold p) confidence_threshold)"

definition duplicate_yolo :: "string \<Rightarrow> real \<Rightarrow> prediction \<Rightarrow> bool" where
  "duplicate_yolo image_hash confidence_threshold p =
     (sql_eq (p_image_hash p) image_hash \<and> p_model p = ''yolo'' \<and>
      sql_eq (p_yolo_threshold p) confidence_threshold)"

definition duplicate_both :: "string \<Rightarrow> real \<Rightarrow> real \<Rightarrow> prediction \<Rightarrow> bool" where
  "duplicate_both image_hash rfdetr_confidence_threshold yolo_confidence_threshold p =
     (sql_eq (p_image_hash p) image_hash \<and> p_model p = ''both'' \<and>
      sql_eq (p_rfdetr_threshold p) rfdetr_confidence_threshold \<and>
      sql_eq (p_yolo_threshold p) yolo_confidence_threshold)"

definition predict_rfdetr_route ::
  "database \<Rightarrow> rf_detections \<Rightarrow> string \<Rightarrow> string \<Rightarrow> real \<Rightarrow> string option \<Rightarrow> user \<Rightarrow>
   string \<Rightarrow> int \<Rightarrow> database \<times> (http_error + predict_response)" where
  "predict_rfdetr_route db detections image_base64 image_hash confidence_threshold comment
     current_user new_id now =
     (case predict_rfdetr detections confidence_threshold of
        Inl e \<Rightarrow> (db, Inl (InternalServerError e))
      | Inr results \<Rightarrow>
          (case find (duplicate_rfdetr image_hash confidence_threshold) (predictions db) of
             Some duplicate \<Rightarrow> (db, Inr (Duplicate (p_id duplicate)))
           | None \<Rightarrow>
               (let (db', prediction) =
                  create_prediction db ''rfdetr'' (SingleResult results)
                    (Some (u_id current_user)) None (Some image_base64) (Some image_hash)
                    (Some (res_confidence results)) None None
                    (Some confidence_threshold) (Some confidence_threshold) None
                    comment new_id now
                in (db', json_response (json_renders (SingleResult results))
                          (Predicted (SingleResult results) (p_id prediction) image_base64)))))"

definition predict_yolo_route ::
  "database \<Rightarrow> (real \<Rightarrow> yolo_result list) \<Rightarrow> string \<Rightarrow> string \<Rightarrow> real \<Rightarrow> string option \<Rightarrow> user \<Rightarrow>
   string \<Rightarrow> int \<Rightarrow> database \<times> (http_error + predict_response)" where
  "predict_yolo_route db model_predict image_base64 image_hash confidence_threshold comment
     current_user new_id now =
     (case predict_yolo model_predict confidence_threshold of
        Inl e \<Rightarrow> (db, Inl (InternalServerError e))
      | Inr results \<Rightarrow>
          (case find (duplicate_yolo image_hash confidence_threshold) (predictions db) of
             Some duplicate \<Rightarrow> (db, Inr (Duplicate (p_id duplicate)))
           | None \<Rightarrow>
               (let (db', prediction) =
                  create_prediction db ''yolo'' (SingleResult results)
                    (Some (u_id current_user)) None (Some image_base64) (Some image_hash)
                    (Some (res_confidence results)) None None
                    (Some confidence_threshold) None (Some confidence_threshold)
                    comment new_id now
                in (db', json_response (json_renders (SingleResult results))
                          (Predicted (SingleResult results) (p_id prediction) image_base64)))))"

definition predict_both_route ::
  "database \<Rightarrow> rf_detections \<Rightarrow> (real \<Rightarrow> yolo_result list) \<Rightarrow> string \<Rightarrow> string \<Rightarrow> real \<Rightarrow> real \<Rightarrow>
   string option \<Rightarrow> user \<Rightarrow> string \<Rightarrow> int \<Rightarrow> database \<times> (http_error + predict_response)" where
  "predict_both_route db detections model_predict image_base64 image_hash
     rfdetr_confidence_threshold yolo_confidence_threshold comment current_user new_id now =
     (case predict_rfdetr detections rfdetr_confidence_threshold of
        Inl e \<Rightarrow> (db, Inl (InternalServerError e))
      | Inr rfdetr_results \<Rightarrow>
          (case predict_yolo model_predict yolo_confidence_threshold of
             Inl e \<Rightarrow> (db, Inl (InternalServerError e))
           | Inr yolo_results \<Rightarrow>
               (case find (duplicate_both image_hash rfdetr_confidence_threshold
                             yolo_confidence_threshold) (predictions db) of
                  Some duplicate \<Rightarrow> (db, Inr (Duplicate (p_id duplicate)))
                | None \<Rightarrow>
                    (let combined_results =
                       CombinedResults [(''rfdetr'', rfdetr_results), (''yolo'', yolo_results)];
                         (db', prediction) =
                       create_prediction db ''both'' combined_results
                         (Some (u_id current_user)) None (Some image_base64) (Some image_hash)
                         None (Some (res_confidence rfdetr_results))
                         (Some (res_confidence yolo_results))
                         None (Some rfdetr_confidence_threshold)
                         (Some yolo_confidence_threshold) comment new_id now
                     in (db', json_response (json_renders combined_results)
                               (Predicted combined_results (p_id prediction) image_base64))))))"

subsection \<open>The history routes\<close>

text \<open>
  \<^verbatim>\<open>Query(None, ge=0, le=1)\<close> on an optional float.
\<close>

definition in_unit_range :: "real option \<Rightarrow> bool" where
  "in_unit_range v = (case v of None \<Rightarrow> True | Some x \<Rightarrow> 0 \<le> x \<and> x \<le> 1)"

text \<open>
  The body of the response of \<^verbatim>\<open>GET /predictions\<close>: the page, its length, and the
  \<^verbatim>\<open>skip\<close> and \<^verbatim>\<open>limit\<close> of the request. The page holds the records themselves
  rather than their rendering as dictionaries.
\<close>

record history_page =
  hp_predictions :: "prediction list"
  hp_total :: nat
  hp_skip :: int
  hp_limit :: int

text \<open>
  The declared constraints \<^verbatim>\<open>skip: ge=0\<close>, \<^verbatim>\<open>limit: ge=1, le=1000\<close>,
  \<^verbatim>\<open>min_confidence, max_confidence: ge=0, le=1\<close> are checked by FastAPI before the
  handler runs; a violation ends the request with the error 422. The response holds the
  results of every record of the page.
\<close>

definition get_predictions_route ::
  "(string \<Rightarrow> string \<Rightarrow> bool) \<Rightarrow> database \<Rightarrow> int \<Rightarrow> int \<Rightarrow> string option \<Rightarrow> string option \<Rightarrow>
   string option \<Rightarrow> real option \<Rightarrow> real option \<Rightarrow> http_error + history_page" where
  "get_predictions_route like db skip limit user_id model search_text min_confidence
     max_confidence =
     (if skip < 0 \<or> limit < 1 \<or> 1000 < limit \<or>
         \<not> in_unit_range min_confidence \<or> \<not> in_unit_range max_confidence
      then Inl RequestValidationError
      else
        (let result = get_predictions like db (nat skip) (nat limit) user_id model search_text
                        min_confidence max_confidence
         in json_response (list_all (\<lambda>pred. json_renders (p_results pred)) result)
              \<lparr>hp_predictions = result, hp_total = length result,
               hp_skip = skip, hp_limit = limit\<rparr>))"

text \<open>
  \<^verbatim>\<open>comment: str = Form(...)\<close> is a required form field: FastAPI takes an empty value
  for a missing one and ends the request with the error 422 before the handler runs. The
  response holds the results of the updated record.
\<close>

definition update_prediction_comment_route ::
  "database \<Rightarrow> string \<Rightarrow> string \<Rightarrow> database \<times> (http_error + prediction)" where
  "update_prediction_comment_route db prediction_id comment =
     (if comment = [] then (db, Inl RequestValidationError)
      else
        (case update_prediction_comment db prediction_id comment of
           (db', None) \<Rightarrow> (db', Inl NotFound)
         | (db', Some prediction) \<Rightarrow>
             (db', json_response (json_renders (p_results prediction)) prediction)))"

section \<open>Notions of the specification\<close>

text \<open>
  The candidates a raw detector output holds: for YOLO the rows of all results, for
  RF-DETR the boxes paired with their confidences.
\<close>

definition yolo_candidates :: "yolo_result list \<Rightarrow> yolo_row list" where
  "yolo_candidates results = concat (map (\<lambda>r. tolist_or_empty (yr_boxes r)) results)"

definition rf_candidates :: "rf_detections \<Rightarrow> (box \<times> real) list" where
  "rf_candidates d = zip (tolist_or_empty (rf_xyxy d)) (tolist_or_empty (rf_confidence d))"

text \<open>
  An RF-DETR output gives a box for every confidence it gives (or gives no confidence at
  all).
\<close>

definition boxes_cover_confidences :: "rf_detections \<Rightarrow> bool" where
  "boxes_cover_confidences d =
     (tolist_or_empty (rf_confidence d) = [] \<or>
      length (tolist_or_empty (rf_xyxy d)) = length (tolist_or_empty (rf_confidence d)))"

text \<open>
  The geometry the specification asks of a box: four finite coordinates with
  \<open>x1 < x2\<close> and \<open>y1 < y2\<close>.
\<close>

fun valid_box :: "box \<Rightarrow> bool" where
  "valid_box [Finite x1, Finite y1, Finite x2, Finite y2] = (x1 < x2 \<and> y1 < y2)"
| "valid_box _ = False"

text \<open>The same YOLO result with every box replaced by its image under \<open>g\<close>.\<close>

definition replace_boxes :: "(box \<Rightarrow> box) \<Rightarrow> yolo_result \<Rightarrow> yolo_result" where
  "replace_boxes g result =
     result\<lparr>yr_boxes := map_option (map (apfst g)) (yr_boxes result)\<rparr>"


text \<open>
  The invariant the specification states for a record: a combined record holds two
  result payloads and two per-detector thresholds, a single-detector record one of
  each.
\<close>

definition payload_count :: "results_json \<Rightarrow> nat" where
  "payload_count results =
     (case results of SingleResult r \<Rightarrow> 1 | CombinedResults rs \<Rightarrow> length rs)"

definition threshold_count :: "prediction \<Rightarrow> nat" where
  "threshold_count p =
     (if p_rfdetr_threshold p = None then 0 else 1) + (if p_yolo_threshold p = None then 0 else 1)"

definition counts_match_selector :: "prediction \<Rightarrow> bool" where
  "counts_match_selector p =
     (if p_model p = ''both''
      then payload_count (p_results p) = 2 \<and> threshold_count p = 2
      else payload_count (p_results p) = 1 \<and> threshold_count p = 1)"

text \<open>Two records agree on every column but \<^verbatim>\<open>comment\<close>.\<close>

definition same_but_comment :: "prediction \<Rightarrow> prediction \<Rightarrow> bool" where
  "same_but_comment p q =
     (p_id q = p_id p \<and> p_user_id q = p_user_id p \<and> p_model q = p_model p \<and>
      p_image_url q = p_image_url p \<and> p_image_base64 q = p_image_base64 p \<and>
      p_image_hash q = p_image_hash p \<and> p_results q = p_results p \<and>
      p_confidence q = p_confidence p \<and> p_rfdetr_confidence q = p_rfdetr_confidence p \<and>
      p_yolo_confidence q = p_yolo_confidence p \<and>
      p_confidence_threshold q = p_confidence_threshold p \<and>
      p_rfdetr_threshold q = p_rfdetr_threshold p \<and> p_yolo_threshold q = p_yolo_threshold p \<and>
      p_created_at q = p_created_at p)"

section \<open>Example data\<close>

text \<open>
  Two users, a detector output of each kind for one image with what the normaliser
  makes of it, and the three records that the prediction routes store for that image
  when Bob uploads it. The confidences and thresholds are numbers that single precision
  represents exactly.
\<close>

definition alice :: user where
  "alice = \<lparr>u_id = ''u-alice'', u_username = ''alice'', u_password_hash = ''x'',
            u_email = None, u_created_at = 0, u_is_active = True, u_is_superuser = False\<rparr>"

definition bob :: user where
  "bob = \<lparr>u_id = ''u-bob'', u_username = ''bob'', u_password_hash = ''y'',
          u_email = None, u_created_at = 0, u_is_active = True, u_is_superuser = False\<rparr>"

definition shelf_detections :: rf_detections where
  "shelf_detections =
     \<lparr>rf_xyxy = Some [[Finite 0, Finite 0, Finite 1, Finite 1]], rf_confidence = Some [3 / 4],
      rf_class_id = Some [0], rf_mask = None, rf_tracker_id = None\<rparr>"

definition shelf_backend :: "real \<Rightarrow> yolo_result list" where
  "shelf_backend conf =
     [\<lparr>yr_boxes = Some [([Finite 0, Finite 0, Finite 1, Finite 1], 7 / 8, 0)],
       yr_names = [0 \<mapsto> ''shelf'']\<rparr>]"

definition shelf_rfdetr_result :: predict_result where
  "shelf_rfdetr_result =
     \<lparr>res_detections =
        [\<lparr>det_xyxy = [Finite 0, Finite 0, Finite 1, Finite 1], det_confidence = 3 / 4,
          det_class_id = 0, det_class_name = ''item''\<rparr>],
      res_confidence = 3 / 4, res_model = ''rfdetr''\<rparr>"

definition shelf_yolo_result :: predict_result where
  "shelf_yolo_result =
     \<lparr>res_detections =
        [\<lparr>det_xyxy = [Finite 0, Finite 0, Finite 1, Finite 1], det_confidence = 7 / 8,
          det_class_id = 0, det_class_name = ''shelf''\<rparr>],
      res_confidence = 7 / 8, res_model = ''yolo''\<rparr>"

definition bobs_rfdetr_record :: prediction where
  "bobs_rfdetr_record =
     \<lparr>p_id = ''p-1'', p_user_id = Some ''u-bob'', p_model = ''rfdetr'', p_image_url = None,
      p_image_base64 = Some ''img'', p_image_hash = Some ''abc'',
      p_results = SingleResult shelf_rfdetr_result,
      p_confidence = Some (3 / 4), p_rfdetr_confidence = None, p_yolo_confidence = None,
      p_confidence_threshold = Some (1 / 2), p_rfdetr_threshold = Some (1 / 2),
      p_yolo_threshold = None, p_comment = None, p_created_at = 1\<rparr>"

definition bobs_yolo_record :: prediction where
  "bobs_yolo_record =
     \<lparr>p_id = ''p-2'', p_user_id = Some ''u-bob'', p_model = ''yolo'', p_image_url = None,
      p_image_base64 = Some ''img'', p_image_hash = Some ''abc'',
      p_results = SingleResult shelf_yolo_result,
      p_confidence = Some (7 / 8), p_rfdetr_confidence = None, p_yolo_confidence = None,
      p_confidence_threshold = Some (1 / 4), p_rfdetr_threshold = None,
      p_yolo_threshold = Some (1 / 4), p_comment = None, p_created_at = 2\<rparr>"

definition bobs_both_record :: prediction where
  "bobs_both_record =
     \<lparr>p_id = ''p-3'', p_user_id = Some ''u-bob'', p_model = ''both'', p_image_url = None,
      p_image_base64 = Some ''img'', p_image_hash = Some ''abc'',
      p_results = CombinedResults [(''rfdetr'', shelf_rfdetr_result), (''yolo'', shelf_yolo_result)],
      p_confidence = None, p_rfdetr_confidence = Some (3 / 4), p_yolo_confidence = Some (7 / 8),
      p_confidence_threshold = None, p_rfdetr_threshold = Some (1 / 2),
      p_yolo_threshold = Some (1 / 4), p_comment = None, p_created_at = 3\<rparr>"

definition bobs_store :: database where
  "bobs_store =
     \<lparr>users = [alice, bob],
      predictions = [bobs_rfdetr_record, bobs_yolo_record, bobs_both_record]\<rparr>"

definition empty_store :: database where
  "empty_store = \<lparr>users = [alice, bob], predictions = []\<rparr>"

text \<open>
  Two detector outputs that the normaliser cannot process: an RF-DETR output whose class
  array is longer than its confidence array, and a YOLO output with a class number that
  its name table lacks.
\<close>

definition misaligned_detections :: rf_detections where
  "misaligned_detections =
     \<lparr>rf_xyxy = Some [[Finite 0, Finite 0, Finite 1, Finite 1]], rf_confidence = Some [3 / 4],
      rf_class_id = Some [0, 1], rf_mask = None, rf_tracker_id = None\<rparr>"

definition unnamed_backend :: "real \<Rightarrow> yolo_result list" where
  "unnamed_backend conf =
     [\<lparr>yr_boxes = Some [([Finite 0, Finite 0, Finite 1, Finite 1], 7 / 8, 5)],
       yr_names = [0 \<mapsto> ''shelf'']\<rparr>]"

text \<open>A YOLO output with a box that has a NaN coordinate, and what the normaliser makes of it.\<close>

definition nan_backend :: "real \<Rightarrow> yolo_result list" where
  "nan_backend conf =
     [\<lparr>yr_boxes = Some [([Finite 0, Finite 0, NaN, Finite 1], 7 / 8, 0)],
       yr_names = [0 \<mapsto> ''shelf'']\<rparr>]"

definition nan_yolo_result :: predict_result where
  "nan_yolo_result =
     \<lparr>res_detections =
        [\<lparr>det_xyxy = [Finite 0, Finite 0, NaN, Finite 1], det_confidence = 7 / 8,
          det_class_id = 0, det_class_name = ''shelf''\<rparr>],
      res_confidence = 7 / 8, res_model = ''yolo''\<rparr>"

section \<open>Lemmas about the normaliser\<close>

lemma err_bind_Inr: "err_bind m f = Inr y \<longleftrightarrow> (\<exists>x. m = Inr x \<and> f x = Inr y)"
  by (cases m) (simp_all add: err_bind_def)

lemma np_mask_index_map:
  "length arr = length cs \<Longrightarrow>
   np_mask_index arr (map P cs) = Inr (map fst (filter (\<lambda>(a, c). P c) (zip arr cs)))"
proof -
  assume len: "length arr = length cs"
  have "map fst (filter snd (zip arr (map P cs))) = map fst (filter (\<lambda>(a, c). P c) (zip arr cs))"
    using len by (induction arr cs rule: list_induct2) auto
  then show ?thesis using len by (simp add: np_mask_index_def)
qed

lemma np_mask_index_self: "np_mask_index cs (map P cs) = Inr (filter P cs)"
proof -
  have "map fst (filter snd (zip cs (map P cs))) = filter P cs"
    by (induction cs) auto
  then show ?thesis by (simp add: np_mask_index_def)
qed

lemma filter_detections_confidence:
  "filter_detections d thr = Inr fd \<Longrightarrow>
   f_confidence fd = filter (\<lambda>c. float32 thr \<le> c) (tolist_or_empty (rf_confidence d))"
  by (auto simp: filter_detections_def err_bind_Inr masked_tolist_def np_mask_index_self
      tolist_or_empty_def Let_def split: option.splits if_splits)

lemma filter_detections_xyxy:
  assumes "filter_detections d thr = Inr fd"
    and "length (tolist_or_empty (rf_xyxy d)) = length (tolist_or_empty (rf_confidence d))"
  shows "f_xyxy fd = map fst (filter (\<lambda>(b, c). float32 thr \<le> c) (rf_candidates d))"
  using assms
  by (auto simp: filter_detections_def err_bind_Inr masked_tolist_def np_mask_index_map
      tolist_or_empty_def rf_candidates_def Let_def split: option.splits if_splits)

lemma filter_less_upt: "filter (\<lambda>i. i < n) [0..<m] = [0..<min m n]"
proof (induction m)
  case 0
  then show ?case by simp
next
  case (Suc m)
  consider "Suc m \<le> n" | "m = n" | "n < m" by arith
  then show ?case
  proof cases
    case 1
    with Suc show ?thesis by (simp add: min_def)
  next
    case 2
    with Suc show ?thesis by (simp add: min_def)
  next
    case 3
    with Suc show ?thesis by (simp add: min_def)
  qed
qed

lemma detections_list_confidence:
  "map det_confidence (detections_list xs cs ks) = take (length xs) cs"
proof -
  have "map ((!) cs) [0..<min (length xs) (length cs)] = take (min (length xs) (length cs)) cs"
    by (metis min.cobounded2 map_nth take_map take_upt add_0)
  then show ?thesis
    by (simp add: detections_list_def o_def filter_less_upt min_def)
qed

lemma detections_list_xyxy:
  "map det_xyxy (detections_list xs cs ks) = take (length cs) xs"
proof -
  have "map ((!) xs) [0..<min (length xs) (length cs)] = take (min (length xs) (length cs)) xs"
    by (metis min.cobounded1 map_nth take_map take_upt add_0)
  then show ?thesis
    by (simp add: detections_list_def o_def filter_less_upt min_def)
qed

lemma collect_rows_fields:
  "collect_rows names rows = Inr ds \<Longrightarrow>
   map det_xyxy ds = map fst rows \<and> map det_confidence ds = map (\<lambda>r. fst (snd r)) rows"
proof (induction rows arbitrary: ds)
  case Nil
  then show ?case by simp
next
  case (Cons row rows)
  then show ?case
    by (auto simp: err_bind_Inr yolo_detection_def split: prod.splits option.splits)
qed

lemma collect_detections_fields:
  "collect_detections results = Inr ds \<Longrightarrow>
   map det_xyxy ds = map fst (yolo_candidates results) \<and>
   map det_confidence ds = map (\<lambda>r. fst (snd r)) (yolo_candidates results)"
proof (induction results arbitrary: ds)
  case Nil
  then show ?case by (simp add: yolo_candidates_def)
next
  case (Cons result results)
  then show ?case
    by (auto simp: err_bind_Inr yolo_candidates_def tolist_or_empty_def
        dest!: collect_rows_fields split: option.splits if_splits)
qed

lemma filter_snd_zip:
  "length xs = length ys \<Longrightarrow> filter P ys = map snd (filter (\<lambda>(b, c). P c) (zip xs ys))"
  by (induction xs ys rule: list_induct2) auto

lemma map_pair_zip: "map (\<lambda>x. (f x, g x)) xs = zip (map f xs) (map g xs)"
  by (induction xs) auto

lemma predict_rfdetr_pairs:
  assumes "predict_rfdetr d thr = Inr res" and "boxes_cover_confidences d"
  shows "map (\<lambda>x. (det_xyxy x, det_confidence x)) (res_detections res) =
         filter (\<lambda>(b, c). float32 thr \<le> c) (rf_candidates d)"
proof -
  from assms(1) obtain fd where fd: "filter_detections d thr = Inr fd"
    and res: "res_detections res = detections_list (f_xyxy fd) (f_confidence fd) (f_class_id fd)"
    by (auto simp: predict_rfdetr_def err_bind_Inr)
  have conf: "f_confidence fd = filter (\<lambda>c. float32 thr \<le> c) (tolist_or_empty (rf_confidence d))"
    by (rule filter_detections_confidence [OF fd])
  show ?thesis
  proof (cases "tolist_or_empty (rf_confidence d) = []")
    case True
    then show ?thesis
      by (simp add: res conf detections_list_def rf_candidates_def)
  next
    case False
    with assms(2) have len: "length (tolist_or_empty (rf_xyxy d)) = length (tolist_or_empty (rf_confidence d))"
      by (simp add: boxes_cover_confidences_def)
    have xy: "f_xyxy fd = map fst (filter (\<lambda>(b, c). float32 thr \<le> c) (rf_candidates d))"
      by (rule filter_detections_xyxy [OF fd len])
    have cf: "f_confidence fd = map snd (filter (\<lambda>(b, c). float32 thr \<le> c) (rf_candidates d))"
      unfolding conf rf_candidates_def by (rule filter_snd_zip [OF len])
    have bx: "map det_xyxy (res_detections res) = f_xyxy fd"
      by (simp add: res detections_list_xyxy xy cf)
    have cx: "map det_confidence (res_detections res) = f_confidence fd"
      by (simp add: res detections_list_confidence xy cf)
    have "map (\<lambda>x. (det_xyxy x, det_confidence x)) (res_detections res) =
        zip (f_xyxy fd) (f_confidence fd)"
      by (simp only: map_pair_zip bx cx)
    then show ?thesis by (simp add: xy cf zip_map_fst_snd)
  qed
qed

lemma predict_yolo_fields:
  "predict_yolo model_predict thr = Inr res \<Longrightarrow>
   map det_xyxy (res_detections res) = map fst (yolo_candidates (model_predict thr)) \<and>
   map det_confidence (res_detections res) =
     map (\<lambda>r. fst (snd r)) (yolo_candidates (model_predict thr)) \<and>
   res_confidence res = avg_confidence (map det_confidence (res_detections res))"
  by (auto simp: predict_yolo_def err_bind_Inr dest!: collect_detections_fields)


lemma predict_rfdetr_floor:
  assumes "predict_rfdetr d thr = Inr res" and "x \<in> set (res_detections res)"
  shows "float32 thr \<le> det_confidence x"
proof -
  from assms(1) obtain fd where fd: "filter_detections d thr = Inr fd"
    and res: "res_detections res = detections_list (f_xyxy fd) (f_confidence fd) (f_class_id fd)"
    by (auto simp: predict_rfdetr_def err_bind_Inr)
  have "det_confidence x \<in> set (map det_confidence (res_detections res))"
    using assms(2) by simp
  then have "det_confidence x \<in> set (take (length (f_xyxy fd)) (f_confidence fd))"
    by (simp only: res detections_list_confidence)
  then have "det_confidence x \<in> set (f_confidence fd)"
    by (rule in_set_takeD)
  then show ?thesis
    by (simp add: filter_detections_confidence [OF fd])
qed


lemma isl_err_bind: "isl (err_bind m f) \<longleftrightarrow> isl m \<or> (\<exists>x. m = Inr x \<and> isl (f x))"
  by (cases m) (simp_all add: err_bind_def)

lemma isl_filter_detections_xyxy:
  assumes "length bs' = length bs"
  shows "isl (filter_detections (d\<lparr>rf_xyxy := Some bs'\<rparr>) thr) =
         isl (filter_detections (d\<lparr>rf_xyxy := Some bs\<rparr>) thr)"
  using assms
  by (auto simp: filter_detections_def Let_def isl_err_bind masked_tolist_def np_mask_index_def
      split: option.splits)

lemma isl_predict_rfdetr: "isl (predict_rfdetr d thr) = isl (filter_detections d thr)"
  by (simp add: predict_rfdetr_def isl_err_bind)

lemma isl_collect_rows:
  "isl (collect_rows names (map (apfst g) rows)) = isl (collect_rows names rows)"
proof (induction rows)
  case Nil
  then show ?case by simp
next
  case (Cons row rows)
  obtain b conf cls where row: "row = (b, conf, cls)" by (cases row) auto
  show ?case
  proof (cases "names (py_int cls)")
    case None
    then show ?thesis by (simp add: row yolo_detection_def err_bind_def)
  next
    case (Some n)
    then show ?thesis using Cons
      by (simp add: row yolo_detection_def isl_err_bind)
  qed
qed

lemma isl_err_bind2:
  "isl (err_bind a (\<lambda>x. err_bind b (\<lambda>y. Inr (h x y)))) \<longleftrightarrow> isl a \<or> isl b"
  by (cases a; cases b) (simp_all add: err_bind_def)

lemma isl_collect_detections:
  "isl (collect_detections (map (replace_boxes g) results)) = isl (collect_detections results)"
proof (induction results)
  case Nil
  then show ?case by simp
next
  case (Cons result results)
  have "isl (case yr_boxes (replace_boxes g result) of
          None \<Rightarrow> Inr []
        | Some rows \<Rightarrow> if length rows > 0 then collect_rows (yr_names (replace_boxes g result)) rows else Inr [])
      = isl (case yr_boxes result of
          None \<Rightarrow> Inr []
        | Some rows \<Rightarrow> if length rows > 0 then collect_rows (yr_names result) rows else Inr [])"
    by (cases "yr_boxes result") (simp_all add: replace_boxes_def isl_collect_rows)
  then show ?case using Cons by (simp add: isl_err_bind2)
qed

lemma isl_predict_yolo:
  "isl (predict_yolo (\<lambda>t. map (replace_boxes g) (model_predict t)) thr) =
   isl (predict_yolo model_predict thr)"
  by (simp add: predict_yolo_def isl_err_bind isl_collect_detections)

lemma round_small_numeral:
  "round_small p (numeral k) x =
     (if x < 2 ^ (p - 1) then round_small p (pred_numeral k) (2 * x) / 2
      else of_int (round_half_even x))"
  by (simp add: numeral_eq_Suc)

lemma round_large_numeral:
  "round_large p (numeral k) x =
     (if 2 ^ p \<le> x then round_large p (pred_numeral k) (x / 2) * 2
      else of_int (round_half_even x))"
  by (simp add: numeral_eq_Suc)

lemmas float_eval =
  float32_def float64_def round_nearest_def round_magnitude_def round_small_numeral
  round_large_numeral round_half_even_def Let_def fadd_def fdiv_def py_sum_def

lemmas normaliser_eval =
  predict_rfdetr_def filter_detections_def masked_tolist_def masked_or_none_def
  np_mask_index_def err_bind_def detections_list_def avg_confidence_def
  predict_yolo_def yolo_detection_def py_int_def tolist_or_empty_def
  boxes_cover_confidences_def rf_candidates_def yolo_candidates_def float_eval



section \<open>The normaliser and the claims about it\<close>

subsection \<open>Box geometry\<close>

text \<open>
  Claim C3, as the specification states it: a raw detector output with a box whose
  coordinates are non-finite or violate \<open>x1 < x2\<close>, \<open>y1 < y2\<close> makes the normaliser fail
  with MalformedDetectorOutput, and no result with that geometry is returned.

  The code has no such check. \<open>predict_rfdetr\<close> returns a detection whose box has
  \<open>x1 > x2\<close> and a NaN coordinate, and \<open>predict_yolo\<close> returns one with \<open>x1 > x2\<close>
  and \<open>y1 > y2\<close>.
\<close>

theorem C3_counterexample:
  "\<not> valid_box [Finite 10, Finite 10, Finite 5, NaN] \<and>
   predict_rfdetr
     \<lparr>rf_xyxy = Some [[Finite 10, Finite 10, Finite 5, NaN]], rf_confidence = Some [3 / 4],
      rf_class_id = Some [0], rf_mask = None, rf_tracker_id = None\<rparr> (1 / 2)
   = Inr \<lparr>res_detections =
            [\<lparr>det_xyxy = [Finite 10, Finite 10, Finite 5, NaN], det_confidence = 3 / 4,
              det_class_id = 0, det_class_name = ''item''\<rparr>],
          res_confidence = 3 / 4, res_model = ''rfdetr''\<rparr> \<and>
   \<not> valid_box [Finite 8, Finite 2, Finite 3, Finite 1] \<and>
   predict_yolo
     (\<lambda>conf. [\<lparr>yr_boxes = Some [([Finite 8, Finite 2, Finite 3, Finite 1], 7 / 8, 0)],
               yr_names = [0 \<mapsto> ''item'']\<rparr>]) (1 / 4)
   = Inr \<lparr>res_detections =
            [\<lparr>det_xyxy = [Finite 8, Finite 2, Finite 3, Finite 1], det_confidence = 7 / 8,
              det_class_id = 0, det_class_name = ''item''\<rparr>],
          res_confidence = 7 / 8, res_model = ''yolo''\<rparr>"
  by (simp add: normaliser_eval)

text \<open>
  Claim C3, amended: the normaliser does not look at box geometry. Whenever it returns,
  the boxes of its detections are the boxes the detector gave, unchanged and in order:
  for YOLO those of all candidates, for RF-DETR those of the candidates that its mask
  keeps (the confidence is at least the floor cast to single precision), when the
  output has a box for every confidence. Whether the normaliser fails does not depend on
  the coordinates: replacing the boxes by any others leaves a failure a failure and a
  result a result.
\<close>

theorem C3_boxes_returned_unchecked:
  "(predict_yolo model_predict thr = Inr res \<longrightarrow>
      map det_xyxy (res_detections res) = map fst (yolo_candidates (model_predict thr))) \<and>
   (predict_rfdetr d thr = Inr res' \<longrightarrow> boxes_cover_confidences d \<longrightarrow>
      map det_xyxy (res_detections res') =
        map fst (filter (\<lambda>(b, c). float32 thr \<le> c) (rf_candidates d))) \<and>
   isl (predict_yolo (\<lambda>t. map (replace_boxes g) (model_predict t)) thr) =
     isl (predict_yolo model_predict thr) \<and>
   (length bs' = length bs \<longrightarrow>
      isl (predict_rfdetr (d\<lparr>rf_xyxy := Some bs'\<rparr>) thr) =
        isl (predict_rfdetr (d\<lparr>rf_xyxy := Some bs\<rparr>) thr))"
proof (intro conjI impI)
  assume "predict_yolo model_predict thr = Inr res"
  then show "map det_xyxy (res_detections res) = map fst (yolo_candidates (model_predict thr))"
    by (simp add: predict_yolo_fields)
next
  assume a: "predict_rfdetr d thr = Inr res'" and b: "boxes_cover_confidences d"
  have "map fst (map (\<lambda>x. (det_xyxy x, det_confidence x)) (res_detections res')) =
        map fst (filter (\<lambda>(b, c). float32 thr \<le> c) (rf_candidates d))"
    by (simp only: predict_rfdetr_pairs [OF a b])
  then show "map det_xyxy (res_detections res') =
        map fst (filter (\<lambda>(b, c). float32 thr \<le> c) (rf_candidates d))"
    by (simp add: o_def)
next
  show "isl (predict_yolo (\<lambda>t. map (replace_boxes g) (model_predict t)) thr) =
     isl (predict_yolo model_predict thr)"
    by (rule isl_predict_yolo)
next
  assume len: "length bs' = length bs"
  show "isl (predict_rfdetr (d\<lparr>rf_xyxy := Some bs'\<rparr>) thr) =
        isl (predict_rfdetr (d\<lparr>rf_xyxy := Some bs\<rparr>) thr)"
    unfolding isl_predict_rfdetr by (rule isl_filter_detections_xyxy [OF len])
qed

theorem C3_boxes_returned_unchecked_witness:
  "predict_yolo nan_backend (1 / 2) = Inr nan_yolo_result \<and>
   map det_xyxy (res_detections nan_yolo_result) = [[Finite 0, Finite 0, NaN, Finite 1]] \<and>
   map fst (yolo_candidates (nan_backend (1 / 2))) = [[Finite 0, Finite 0, NaN, Finite 1]] \<and>
   predict_rfdetr
     \<lparr>rf_xyxy = Some [[Finite 10, Finite 10, Finite 5, NaN], [Finite 0, Finite 0, Finite 1, Finite 1]],
      rf_confidence = Some [3 / 4, 1 / 4],
      rf_class_id = Some [0, 0], rf_mask = None, rf_tracker_id = None\<rparr> (1 / 2)
   = Inr \<lparr>res_detections =
            [\<lparr>det_xyxy = [Finite 10, Finite 10, Finite 5, NaN], det_confidence = 3 / 4,
              det_class_id = 0, det_class_name = ''item''\<rparr>],
          res_confidence = 3 / 4, res_model = ''rfdetr''\<rparr> \<and>
   boxes_cover_confidences
     \<lparr>rf_xyxy = Some [[Finite 10, Finite 10, Finite 5, NaN], [Finite 0, Finite 0, Finite 1, Finite 1]],
      rf_confidence = Some [3 / 4, 1 / 4],
      rf_class_id = Some [0, 0], rf_mask = None, rf_tracker_id = None\<rparr> \<and>
   map fst (filter (\<lambda>(b, c). float32 (1 / 2) \<le> c) (rf_candidates
     \<lparr>rf_xyxy = Some [[Finite 10, Finite 10, Finite 5, NaN], [Finite 0, Finite 0, Finite 1, Finite 1]],
      rf_confidence = Some [3 / 4, 1 / 4],
      rf_class_id = Some [0, 0], rf_mask = None, rf_tracker_id = None\<rparr>))
   = [[Finite 10, Finite 10, Finite 5, NaN]] \<and>
   length [[Finite 1, Finite 1, Finite 2, Finite 2], [Finite 0, Finite 0, Finite 1, Finite 1]] =
   length [[Finite 10, Finite 10, Finite 5, NaN], [Finite 0, Finite 0, Finite 1, Finite 1]] \<and>
   \<not> isl (predict_rfdetr
     \<lparr>rf_xyxy = Some [[Finite 1, Finite 1, Finite 2, Finite 2], [Finite 0, Finite 0, Finite 1, Finite 1]],
      rf_confidence = Some [3 / 4, 1 / 4],
      rf_class_id = Some [0, 0], rf_mask = None, rf_tracker_id = None\<rparr> (1 / 2))"
  using C3_boxes_returned_unchecked
    [of nan_backend "1 / 2" nan_yolo_result
        "\<lparr>rf_xyxy = Some [[Finite 10, Finite 10, Finite 5, NaN], [Finite 0, Finite 0, Finite 1, Finite 1]],
      rf_confidence = Some [3 / 4, 1 / 4],
      rf_class_id = Some [0, 0], rf_mask = None, rf_tracker_id = None\<rparr>"
        "\<lparr>res_detections =
            [\<lparr>det_xyxy = [Finite 10, Finite 10, Finite 5, NaN], det_confidence = 3 / 4,
              det_class_id = 0, det_class_name = ''item''\<rparr>],
          res_confidence = 3 / 4, res_model = ''rfdetr''\<rparr>"
        id
        "[[Finite 1, Finite 1, Finite 2, Finite 2], [Finite 0, Finite 0, Finite 1, Finite 1]]"
        "[[Finite 10, Finite 10, Finite 5, NaN], [Finite 0, Finite 0, Finite 1, Finite 1]]"]
  by (simp add: normaliser_eval nan_backend_def nan_yolo_result_def)

subsection \<open>The confidence floor\<close>

text \<open>
  Claim C4, as the specification states it: the normalisation step itself discards every
  candidate whose confidence is strictly below the floor, whatever the backend did, so
  every returned detection has a confidence of at least the floor.

  \<open>predict_yolo\<close> hands the floor to the backend and does not compare any confidence
  with it: a candidate of confidence \<open>0.125\<close> that the backend emits under the floor
  \<open>0.5\<close> is returned. \<open>predict_rfdetr\<close> compares in single precision: under the floor
  \<open>0.9\<close> it returns a candidate whose confidence is the single precision number next
  to \<open>0.9\<close>, which is below \<open>0.9\<close>.
\<close>

theorem C4_counterexample:
  "(1 / 8 :: real) < 1 / 2 \<and>
   predict_yolo
     (\<lambda>conf. [\<lparr>yr_boxes = Some [([Finite 0, Finite 0, Finite 1, Finite 1], 1 / 8, 0)],
               yr_names = [0 \<mapsto> ''item'']\<rparr>]) (1 / 2)
   = Inr \<lparr>res_detections =
            [\<lparr>det_xyxy = [Finite 0, Finite 0, Finite 1, Finite 1], det_confidence = 1 / 8,
              det_class_id = 0, det_class_name = ''item''\<rparr>],
          res_confidence = 1 / 8, res_model = ''yolo''\<rparr> \<and>
   float32 (9 / 10) = 7549747 / 8388608 \<and>
   (7549747 / 8388608 :: real) < 9 / 10 \<and>
   predict_rfdetr
     \<lparr>rf_xyxy = Some [[Finite 0, Finite 0, Finite 1, Finite 1]],
      rf_confidence = Some [7549747 / 8388608],
      rf_class_id = Some [0], rf_mask = None, rf_tracker_id = None\<rparr> (9 / 10)
   = Inr \<lparr>res_detections =
            [\<lparr>det_xyxy = [Finite 0, Finite 0, Finite 1, Finite 1],
              det_confidence = 7549747 / 8388608,
              det_class_id = 0, det_class_name = ''item''\<rparr>],
          res_confidence = 7549747 / 8388608, res_model = ''rfdetr''\<rparr>"
  by (simp add: normaliser_eval)

text \<open>
  Claim C4, amended: the RF-DETR normalisation itself discards every candidate whose
  confidence is strictly below the floor cast to single precision, so each detection it
  returns has a confidence of at least that rounded floor (which can lie below the floor
  itself); when the output has a box for every confidence, the returned detections are
  exactly the candidates at or above the rounded floor, in order. The YOLO
  normalisation applies no floor of its own: it returns every candidate the backend
  emitted for that floor, with its confidence.
\<close>

theorem C4_floor_in_rfdetr_only:
  "(predict_rfdetr d thr = Inr res \<longrightarrow>
      (\<forall>x\<in>set (res_detections res). float32 thr \<le> det_confidence x)) \<and>
   (predict_rfdetr d thr = Inr res \<longrightarrow> boxes_cover_confidences d \<longrightarrow>
      map (\<lambda>x. (det_xyxy x, det_confidence x)) (res_detections res) =
        filter (\<lambda>(b, c). float32 thr \<le> c) (rf_candidates d)) \<and>
   (predict_yolo model_predict thr = Inr res' \<longrightarrow>
      map det_confidence (res_detections res') =
        map (\<lambda>r. fst (snd r)) (yolo_candidates (model_predict thr)))"
  using predict_rfdetr_floor predict_rfdetr_pairs predict_yolo_fields by blast

theorem C4_floor_in_rfdetr_only_witness:
  "predict_rfdetr
     \<lparr>rf_xyxy = Some [[Finite 2, Finite 2, Finite 3, Finite 3], [Finite 0, Finite 0, Finite 1, Finite 1]],
      rf_confidence = Some [3 / 4, 1 / 4],
      rf_class_id = Some [0, 0], rf_mask = None, rf_tracker_id = None\<rparr> (1 / 2)
   = Inr \<lparr>res_detections =
            [\<lparr>det_xyxy = [Finite 2, Finite 2, Finite 3, Finite 3], det_confidence = 3 / 4,
              det_class_id = 0, det_class_name = ''item''\<rparr>],
          res_confidence = 3 / 4, res_model = ''rfdetr''\<rparr> \<and>
   float32 (1 / 2) = 1 / 2 \<and> (1 / 2 :: real) \<le> 3 / 4 \<and>
   boxes_cover_confidences
     \<lparr>rf_xyxy = Some [[Finite 2, Finite 2, Finite 3, Finite 3], [Finite 0, Finite 0, Finite 1, Finite 1]],
      rf_confidence = Some [3 / 4, 1 / 4],
      rf_class_id = Some [0, 0], rf_mask = None, rf_tracker_id = None\<rparr> \<and>
   filter (\<lambda>(b, c). float32 (1 / 2) \<le> c) (rf_candidates
     \<lparr>rf_xyxy = Some [[Finite 2, Finite 2, Finite 3, Finite 3], [Finite 0, Finite 0, Finite 1, Finite 1]],
      rf_confidence = Some [3 / 4, 1 / 4],
      rf_class_id = Some [0, 0], rf_mask = None, rf_tracker_id = None\<rparr>)
   = [([Finite 2, Finite 2, Finite 3, Finite 3], 3 / 4)] \<and>
   predict_yolo
     (\<lambda>conf. [\<lparr>yr_boxes = Some [([Finite 0, Finite 0, Finite 1, Finite 1], 1 / 8, 0)],
               yr_names = [0 \<mapsto> ''item'']\<rparr>]) (1 / 2)
   = Inr \<lparr>res_detections =
            [\<lparr>det_xyxy = [Finite 0, Finite 0, Finite 1, Finite 1], det_confidence = 1 / 8,
              det_class_id = 0, det_class_name = ''item''\<rparr>],
          res_confidence = 1 / 8, res_model = ''yolo''\<rparr>"
  using C4_floor_in_rfdetr_only
    [of "\<lparr>rf_xyxy = Some [[Finite 2, Finite 2, Finite 3, Finite 3], [Finite 0, Finite 0, Finite 1, Finite 1]],
      rf_confidence = Some [3 / 4, 1 / 4],
      rf_class_id = Some [0, 0], rf_mask = None, rf_tracker_id = None\<rparr>" "1 / 2"
        "\<lparr>res_detections =
            [\<lparr>det_xyxy = [Finite 2, Finite 2, Finite 3, Finite 3], det_confidence = 3 / 4,
              det_class_id = 0, det_class_name = ''item''\<rparr>],
          res_confidence = 3 / 4, res_model = ''rfdetr''\<rparr>"
        "\<lambda>conf. [\<lparr>yr_boxes = Some [([Finite 0, Finite 0, Finite 1, Finite 1], 1 / 8, 0)],
               yr_names = [0 \<mapsto> ''item'']\<rparr>]"
        "\<lparr>res_detections =
            [\<lparr>det_xyxy = [Finite 0, Finite 0, Finite 1, Finite 1], det_confidence = 1 / 8,
              det_class_id = 0, det_class_name = ''item''\<rparr>],
          res_confidence = 1 / 8, res_model = ''yolo''\<rparr>"]
  by (simp add: normaliser_eval)

subsection \<open>The aggregate confidence\<close>




section \<open>Lemmas about the store and the routes\<close>

lemmas example_eval =
  alice_def bob_def shelf_detections_def shelf_backend_def shelf_rfdetr_result_def
  shelf_yolo_result_def bobs_rfdetr_record_def bobs_yolo_record_def bobs_both_record_def
  bobs_store_def empty_store_def misaligned_detections_def unnamed_backend_def
  nan_backend_def nan_yolo_result_def

lemmas store_eval =
  create_prediction_def sql_eq_def sql_ge_def sql_le_def truthy_def
  user_filter_def model_filter_def search_filter_def confidence_filter_def
  get_predictions_def duplicate_rfdetr_def duplicate_yolo_def duplicate_both_def
  predict_rfdetr_route_def predict_yolo_route_def predict_both_route_def
  json_response_def json_renders_def result_renders_def finite_coord_def

lemma confidence_filter_range:
  "confidence_filter (Some lo) (Some hi) p \<longleftrightarrow>
   (\<exists>c. p_confidence p = Some c \<and> lo \<le> c \<and> c \<le> hi)"
  by (cases "p_confidence p") (auto simp: confidence_filter_def sql_ge_def sql_le_def)

lemma get_predictions_empty_range:
  "hi < lo \<Longrightarrow> get_predictions like db skip limit user_id model search_text (Some lo) (Some hi) = []"
proof -
  assume "hi < lo"
  then have "\<And>p. \<not> confidence_filter (Some lo) (Some hi) p"
    by (auto simp: confidence_filter_range)
  then show ?thesis by (simp add: get_predictions_def)
qed

lemma get_predictions_range_only:
  "set (get_predictions like db 0 (length (predictions db)) None None None (Some lo) (Some hi)) =
   {p \<in> set (predictions db). \<exists>c. p_confidence p = Some c \<and> lo \<le> c \<and> c \<le> hi}"
proof -
  let ?keep = "filter (\<lambda>p. confidence_filter (Some lo) (Some hi) p) (predictions db)"
  have "length (sort_key (\<lambda>p. - p_created_at p) ?keep) \<le> length (predictions db)"
    by simp
  then have "get_predictions like db 0 (length (predictions db)) None None None (Some lo) (Some hi) =
      sort_key (\<lambda>p. - p_created_at p) ?keep"
    by (simp add: get_predictions_def user_filter_def model_filter_def search_filter_def
        truthy_def)
  then show ?thesis by (auto simp: confidence_filter_range)
qed

lemma get_predictions_range_subset:
  "set (get_predictions like db skip limit user_id model search_text (Some lo) (Some hi)) \<subseteq>
   {p \<in> set (predictions db). \<exists>c. p_confidence p = Some c \<and> lo \<le> c \<and> c \<le> hi}"
proof
  fix p
  assume "p \<in> set (get_predictions like db skip limit user_id model search_text (Some lo) (Some hi))"
  then have "p \<in> set (filter (\<lambda>p. user_filter user_id p \<and> model_filter model p \<and>
                      search_filter like (users db) search_text p \<and>
                      confidence_filter (Some lo) (Some hi) p) (predictions db))"
    unfolding get_predictions_def
    by (metis in_set_takeD in_set_dropD set_sort)
  then show "p \<in> {p \<in> set (predictions db). \<exists>c. p_confidence p = Some c \<and> lo \<le> c \<and> c \<le> hi}"
    by (auto simp: confidence_filter_range)
qed

lemma update_prediction_comment_rows:
  "predictions (fst (update_prediction_comment db pid c)) =
   map (\<lambda>p. if p_id p = pid then p\<lparr>p_comment := Some c\<rparr> else p) (predictions db)"
proof (cases "find (\<lambda>p. p_id p = pid) (predictions db)")
  case None
  then have "\<And>p. p \<in> set (predictions db) \<Longrightarrow> p_id p \<noteq> pid"
    by (auto simp: find_None_iff)
  then have "map (\<lambda>p. if p_id p = pid then p\<lparr>p_comment := Some c\<rparr> else p) (predictions db) =
      predictions db"
    by (simp add: map_idI)
  with None show ?thesis by (simp add: update_prediction_comment_def)
next
  case (Some a)
  then show ?thesis by (simp add: update_prediction_comment_def)
qed

lemma update_prediction_comment_users:
  "users (fst (update_prediction_comment db pid c)) = users db"
  by (simp add: update_prediction_comment_def split: option.splits)

lemma set_comment_frame:
  "list_all2 same_but_comment xs
     (map (\<lambda>p. if p_id p = pid then p\<lparr>p_comment := Some c\<rparr> else p) xs)"
  by (induction xs) (simp_all add: same_but_comment_def)

lemma set_comment_others:
  "filter (\<lambda>p. p_id p \<noteq> pid)
     (map (\<lambda>p. if p_id p = pid then p\<lparr>p_comment := Some c\<rparr> else p) xs) =
   filter (\<lambda>p. p_id p \<noteq> pid) xs"
  by (induction xs) simp_all

lemma set_comment_target:
  "map p_comment (filter (\<lambda>p. p_id p = pid)
     (map (\<lambda>p. if p_id p = pid then p\<lparr>p_comment := Some c\<rparr> else p) xs)) =
   map (\<lambda>p. Some c) (filter (\<lambda>p. p_id p = pid) xs)"
  by (induction xs) simp_all

lemma find_SomeD: "find P xs = Some x \<Longrightarrow> x \<in> set xs \<and> P x"
  by (induction xs) (auto split: if_splits)

lemma find_exists: "x \<in> set xs \<Longrightarrow> P x \<Longrightarrow> \<exists>d. find P xs = Some d"
  by (cases "find P xs") (auto simp: find_None_iff)

lemma predict_rfdetr_route_duplicate:
  assumes "predict_rfdetr d thr = Inr res"
    and "find (duplicate_rfdetr h thr) (predictions db) = Some dup"
  shows "predict_rfdetr_route db d b64 h thr comment u new_id now = (db, Inr (Duplicate (p_id dup)))"
  using assms by (simp add: predict_rfdetr_route_def)

lemma predict_rfdetr_route_new:
  assumes "predict_rfdetr d thr = Inr res"
    and "find (duplicate_rfdetr h thr) (predictions db) = None"
  shows "predict_rfdetr_route db d b64 h thr comment u new_id now =
     (db\<lparr>predictions := predictions db @
          [\<lparr>p_id = new_id, p_user_id = Some (u_id u), p_model = ''rfdetr'', p_image_url = None,
            p_image_base64 = Some b64, p_image_hash = Some h, p_results = SingleResult res,
            p_confidence = Some (res_confidence res), p_rfdetr_confidence = None,
            p_yolo_confidence = None, p_confidence_threshold = Some thr,
            p_rfdetr_threshold = Some thr, p_yolo_threshold = None,
            p_comment = comment, p_created_at = now\<rparr>]\<rparr>,
      json_response (json_renders (SingleResult res))
        (Predicted (SingleResult res) new_id b64))"
  using assms by (simp add: predict_rfdetr_route_def create_prediction_def Let_def)

lemma predict_yolo_route_duplicate:
  assumes "predict_yolo m thr = Inr res"
    and "find (duplicate_yolo h thr) (predictions db) = Some dup"
  shows "predict_yolo_route db m b64 h thr comment u new_id now = (db, Inr (Duplicate (p_id dup)))"
  using assms by (simp add: predict_yolo_route_def)

lemma predict_yolo_route_new:
  assumes "predict_yolo m thr = Inr res"
    and "find (duplicate_yolo h thr) (predictions db) = None"
  shows "predict_yolo_route db m b64 h thr comment u new_id now =
     (db\<lparr>predictions := predictions db @
          [\<lparr>p_id = new_id, p_user_id = Some (u_id u), p_model = ''yolo'', p_image_url = None,
            p_image_base64 = Some b64, p_image_hash = Some h, p_results = SingleResult res,
            p_confidence = Some (res_confidence res), p_rfdetr_confidence = None,
            p_yolo_confidence = None, p_confidence_threshold = Some thr,
            p_rfdetr_threshold = None, p_yolo_threshold = Some thr,
            p_comment = comment, p_created_at = now\<rparr>]\<rparr>,
      json_response (json_renders (SingleResult res))
        (Predicted (SingleResult res) new_id b64))"
  using assms by (simp add: predict_yolo_route_def create_prediction_def Let_def)

lemma predict_both_route_duplicate:
  assumes "predict_rfdetr d rt = Inr rres" and "predict_yolo m yt = Inr yres"
    and "find (duplicate_both h rt yt) (predictions db) = Some dup"
  shows "predict_both_route db d m b64 h rt yt comment u new_id now =
     (db, Inr (Duplicate (p_id dup)))"
  using assms by (simp add: predict_both_route_def)

lemma predict_both_route_new:
  assumes "predict_rfdetr d rt = Inr rres" and "predict_yolo m yt = Inr yres"
    and "find (duplicate_both h rt yt) (predictions db) = None"
  shows "predict_both_route db d m b64 h rt yt comment u new_id now =
     (db\<lparr>predictions := predictions db @
          [\<lparr>p_id = new_id, p_user_id = Some (u_id u), p_model = ''both'', p_image_url = None,
            p_image_base64 = Some b64, p_image_hash = Some h,
            p_results = CombinedResults [(''rfdetr'', rres), (''yolo'', yres)],
            p_confidence = None, p_rfdetr_confidence = Some (res_confidence rres),
            p_yolo_confidence = Some (res_confidence yres), p_confidence_threshold = None,
            p_rfdetr_threshold = Some rt, p_yolo_threshold = Some yt,
            p_comment = comment, p_created_at = now\<rparr>]\<rparr>,
      json_response (json_renders (CombinedResults [(''rfdetr'', rres), (''yolo'', yres)]))
        (Predicted (CombinedResults [(''rfdetr'', rres), (''yolo'', yres)]) new_id b64))"
  using assms by (simp add: predict_both_route_def create_prediction_def Let_def)

lemma duplicate_rfdetr_key:
  "duplicate_rfdetr h thr =
     (\<lambda>p. p_image_hash p = Some h \<and> p_model p = ''rfdetr'' \<and> p_rfdetr_threshold p = Some thr)"
  by (rule ext) (auto simp: duplicate_rfdetr_def sql_eq_def split: option.splits)

lemma duplicate_yolo_key:
  "duplicate_yolo h thr =
     (\<lambda>p. p_image_hash p = Some h \<and> p_model p = ''yolo'' \<and> p_yolo_threshold p = Some thr)"
  by (rule ext) (auto simp: duplicate_yolo_def sql_eq_def split: option.splits)

lemma duplicate_both_key:
  "duplicate_both h rt yt =
     (\<lambda>p. p_image_hash p = Some h \<and> p_model p = ''both'' \<and> p_rfdetr_threshold p = Some rt \<and>
          p_yolo_threshold p = Some yt)"
  by (rule ext) (auto simp: duplicate_both_def sql_eq_def split: option.splits)

lemma predict_rfdetr_route_error:
  "predict_rfdetr d thr = Inl e \<Longrightarrow>
   predict_rfdetr_route db d b64 h thr comment u new_id now = (db, Inl (InternalServerError e))"
  by (simp add: predict_rfdetr_route_def)

lemma predict_yolo_route_error:
  "predict_yolo m thr = Inl e \<Longrightarrow>
   predict_yolo_route db m b64 h thr comment u new_id now = (db, Inl (InternalServerError e))"
  by (simp add: predict_yolo_route_def)

lemma predict_both_route_error_rfdetr:
  "predict_rfdetr d rt = Inl e \<Longrightarrow>
   predict_both_route db d m b64 h rt yt comment u new_id now =
     (db, Inl (InternalServerError e))"
  by (simp add: predict_both_route_def)

lemma predict_both_route_error_yolo:
  "predict_rfdetr d rt = Inr rres \<Longrightarrow> predict_yolo m yt = Inl e \<Longrightarrow>
   predict_both_route db d m b64 h rt yt comment u new_id now =
     (db, Inl (InternalServerError e))"
  by (simp add: predict_both_route_def)

text \<open>
  With a duplicate in the store a prediction route leaves the store as it is and does not
  read the caller.
\<close>

lemma predict_rfdetr_route_found:
  "find (duplicate_rfdetr h thr) (predictions db) = Some dup \<Longrightarrow>
   predict_rfdetr_route db d b64 h thr comment u new_id now =
     (db, case predict_rfdetr d thr of
            Inl e \<Rightarrow> Inl (InternalServerError e)
          | Inr res \<Rightarrow> Inr (Duplicate (p_id dup)))"
  by (simp add: predict_rfdetr_route_def split: sum.splits)

lemma predict_yolo_route_found:
  "find (duplicate_yolo h thr) (predictions db) = Some dup \<Longrightarrow>
   predict_yolo_route db m b64 h thr comment u new_id now =
     (db, case predict_yolo m thr of
            Inl e \<Rightarrow> Inl (InternalServerError e)
          | Inr res \<Rightarrow> Inr (Duplicate (p_id dup)))"
  by (simp add: predict_yolo_route_def split: sum.splits)

lemma predict_both_route_found:
  "find (duplicate_both h rt yt) (predictions db) = Some dup \<Longrightarrow>
   predict_both_route db d m b64 h rt yt comment u new_id now =
     (db, case predict_rfdetr d rt of
            Inl e \<Rightarrow> Inl (InternalServerError e)
          | Inr rres \<Rightarrow>
              (case predict_yolo m yt of
                 Inl e \<Rightarrow> Inl (InternalServerError e)
               | Inr yres \<Rightarrow> Inr (Duplicate (p_id dup))))"
  by (simp add: predict_both_route_def split: sum.splits)

lemma find_first:
  "x \<in> set xs \<Longrightarrow> P x \<Longrightarrow> \<exists>d\<in>set xs. P d \<and> find P xs = Some d"
  using find_exists [of x xs P] find_SomeD [of P xs] by blast

lemma find_none: "\<not> (\<exists>x\<in>set xs. P x) \<Longrightarrow> find P xs = None"
  by (simp add: find_None_iff)

lemma same_but_comment_refl: "list_all2 same_but_comment xs xs"
  by (simp add: list_all2_same same_but_comment_def)

lemma update_prediction_comment_route_store:
  "fst (update_prediction_comment_route db pid c) =
     (if c = [] then db else fst (update_prediction_comment db pid c))"
  by (simp add: update_prediction_comment_route_def split: prod.splits option.splits)

section \<open>The store and the claims about it\<close>

subsection \<open>Creating a record\<close>

text \<open>
  Claim C6, as the specification states it: creating a record whose number of result
  payloads or thresholds does not match its model selector fails with ValidationError,
  and no record is stored.

  \<open>create_prediction\<close> checks nothing: a record with the selector \<^verbatim>\<open>both\<close>, one result
  payload and one threshold is stored and returned.
\<close>

theorem C6_counterexample:
  "\<not> counts_match_selector
      \<lparr>p_id = ''p1'', p_user_id = None, p_model = ''both'', p_image_url = None,
       p_image_base64 = None, p_image_hash = Some ''h'',
       p_results = CombinedResults
         [(''rfdetr'', \<lparr>res_detections = [], res_confidence = 0, res_model = ''rfdetr''\<rparr>)],
       p_confidence = None, p_rfdetr_confidence = Some 0, p_yolo_confidence = None,
       p_confidence_threshold = None, p_rfdetr_threshold = Some (1 / 2),
       p_yolo_threshold = None, p_comment = None, p_created_at = 0\<rparr> \<and>
   create_prediction \<lparr>users = [], predictions = []\<rparr> ''both''
     (CombinedResults
        [(''rfdetr'', \<lparr>res_detections = [], res_confidence = 0, res_model = ''rfdetr''\<rparr>)])
     None None None (Some ''h'') None (Some 0) None None (Some (1 / 2)) None None ''p1'' 0
   = (\<lparr>users = [],
       predictions =
         [\<lparr>p_id = ''p1'', p_user_id = None, p_model = ''both'', p_image_url = None,
           p_image_base64 = None, p_image_hash = Some ''h'',
           p_results = CombinedResults
             [(''rfdetr'', \<lparr>res_detections = [], res_confidence = 0, res_model = ''rfdetr''\<rparr>)],
           p_confidence = None, p_rfdetr_confidence = Some 0, p_yolo_confidence = None,
           p_confidence_threshold = None, p_rfdetr_threshold = Some (1 / 2),
           p_yolo_threshold = None, p_comment = None, p_created_at = 0\<rparr>]\<rparr>,
      \<lparr>p_id = ''p1'', p_user_id = None, p_model = ''both'', p_image_url = None,
       p_image_base64 = None, p_image_hash = Some ''h'',
       p_results = CombinedResults
         [(''rfdetr'', \<lparr>res_detections = [], res_confidence = 0, res_model = ''rfdetr''\<rparr>)],
       p_confidence = None, p_rfdetr_confidence = Some 0, p_yolo_confidence = None,
       p_confidence_threshold = None, p_rfdetr_threshold = Some (1 / 2),
       p_yolo_threshold = None, p_comment = None, p_created_at = 0\<rparr>)"
  by (simp add: create_prediction_def Let_def counts_match_selector_def payload_count_def
      threshold_count_def)

text \<open>
  Claim C6, amended: \<open>create_prediction\<close> does not validate the number of result payloads
  or thresholds against the model selector and has no ValidationError: for all
  arguments it stores exactly one new record that holds the arguments as they were
  given, and returns it.
\<close>

theorem C6_create_stores_unvalidated:
  "create_prediction db model results user_id image_url image_base64 image_hash confidence
     rfdetr_confidence yolo_confidence confidence_threshold rfdetr_threshold yolo_threshold
     comment new_id now =
   (db\<lparr>predictions := predictions db @
        [\<lparr>p_id = new_id, p_user_id = user_id, p_model = model, p_image_url = image_url,
          p_image_base64 = image_base64, p_image_hash = image_hash, p_results = results,
          p_confidence = confidence, p_rfdetr_confidence = rfdetr_confidence,
          p_yolo_confidence = yolo_confidence, p_confidence_threshold = confidence_threshold,
          p_rfdetr_threshold = rfdetr_threshold, p_yolo_threshold = yolo_threshold,
          p_comment = comment, p_created_at = now\<rparr>]\<rparr>,
    \<lparr>p_id = new_id, p_user_id = user_id, p_model = model, p_image_url = image_url,
     p_image_base64 = image_base64, p_image_hash = image_hash, p_results = results,
     p_confidence = confidence, p_rfdetr_confidence = rfdetr_confidence,
     p_yolo_confidence = yolo_confidence, p_confidence_threshold = confidence_threshold,
     p_rfdetr_threshold = rfdetr_threshold, p_yolo_threshold = yolo_threshold,
     p_comment = comment, p_created_at = now\<rparr>)"
  by (simp add: create_prediction_def Let_def)

subsection \<open>Updating the annotation\<close>

text \<open>
  Claim C9: an annotation update on the identifier of a stored record changes the
  comment of that record only. For the CRUD function: every record keeps its identifier,
  owner, model selector, image, content key, results, confidences, thresholds and
  creation time; the records with another identifier are unchanged altogether; the
  records with the identifier have the new comment; the users are untouched. For the
  route, with every comment: every record keeps all these columns and the users are
  untouched; with a comment that is not empty the route leaves the store as the CRUD
  function does, and an empty comment is rejected with the store as it was.
\<close>

theorem C9_update_changes_comment_only:
  "list_all2 same_but_comment (predictions db)
     (predictions (fst (update_prediction_comment db pid c))) \<and>
   users (fst (update_prediction_comment db pid c)) = users db \<and>
   filter (\<lambda>p. p_id p \<noteq> pid) (predictions (fst (update_prediction_comment db pid c))) =
     filter (\<lambda>p. p_id p \<noteq> pid) (predictions db) \<and>
   map p_comment (filter (\<lambda>p. p_id p = pid)
       (predictions (fst (update_prediction_comment db pid c)))) =
     map (\<lambda>p. Some c) (filter (\<lambda>p. p_id p = pid) (predictions db)) \<and>
   list_all2 same_but_comment (predictions db)
     (predictions (fst (update_prediction_comment_route db pid c))) \<and>
   users (fst (update_prediction_comment_route db pid c)) = users db \<and>
   (c \<noteq> [] \<longrightarrow>
      fst (update_prediction_comment_route db pid c) = fst (update_prediction_comment db pid c)) \<and>
   update_prediction_comment_route db pid [] = (db, Inl RequestValidationError)"
proof -
  have 1: "list_all2 same_but_comment (predictions db)
     (predictions (fst (update_prediction_comment db pid c)))"
    unfolding update_prediction_comment_rows by (rule set_comment_frame)
  have 2: "users (fst (update_prediction_comment db pid c)) = users db"
    by (rule update_prediction_comment_users)
  have 3: "filter (\<lambda>p. p_id p \<noteq> pid) (predictions (fst (update_prediction_comment db pid c))) =
     filter (\<lambda>p. p_id p \<noteq> pid) (predictions db)"
    unfolding update_prediction_comment_rows by (rule set_comment_others)
  have 4: "map p_comment (filter (\<lambda>p. p_id p = pid)
       (predictions (fst (update_prediction_comment db pid c)))) =
     map (\<lambda>p. Some c) (filter (\<lambda>p. p_id p = pid) (predictions db))"
    unfolding update_prediction_comment_rows by (rule set_comment_target)
  have 5: "list_all2 same_but_comment (predictions db)
     (predictions (fst (update_prediction_comment_route db pid c)))"
    using 1 by (simp add: update_prediction_comment_route_store same_but_comment_refl)
  have 6: "users (fst (update_prediction_comment_route db pid c)) = users db"
    using 2 by (simp add: update_prediction_comment_route_store)
  have 7: "c \<noteq> [] \<longrightarrow>
      fst (update_prediction_comment_route db pid c) = fst (update_prediction_comment db pid c)"
    by (simp add: update_prediction_comment_route_store)
  have 8: "update_prediction_comment_route db pid [] = (db, Inl RequestValidationError)"
    by (simp add: update_prediction_comment_route_def)
  show ?thesis
    by (rule conjI [OF 1 conjI [OF 2 conjI [OF 3 conjI [OF 4 conjI [OF 5 conjI [OF 6
          conjI [OF 7 8]]]]]]])
qed

theorem C9_update_changes_comment_only_witness:
  "predictions (fst (update_prediction_comment bobs_store ''p-2'' ''checked'')) =
     [bobs_rfdetr_record, bobs_yolo_record\<lparr>p_comment := Some ''checked''\<rparr>, bobs_both_record] \<and>
   list_all2 same_but_comment (predictions bobs_store)
     [bobs_rfdetr_record, bobs_yolo_record\<lparr>p_comment := Some ''checked''\<rparr>, bobs_both_record] \<and>
   ''checked'' \<noteq> [] \<and>
   update_prediction_comment_route bobs_store ''p-2'' ''checked'' =
     (bobs_store\<lparr>predictions :=
        [bobs_rfdetr_record, bobs_yolo_record\<lparr>p_comment := Some ''checked''\<rparr>,
         bobs_both_record]\<rparr>,
      Inr (bobs_yolo_record\<lparr>p_comment := Some ''checked''\<rparr>)) \<and>
   update_prediction_comment_route bobs_store ''p-2'' [] =
     (bobs_store, Inl RequestValidationError) \<and>
   update_prediction_comment_route bobs_store ''p-7'' ''checked'' = (bobs_store, Inl NotFound)"
  using C9_update_changes_comment_only [of bobs_store "''p-2''" "''checked''"]
  by (simp add: example_eval update_prediction_comment_def
      update_prediction_comment_route_def same_but_comment_def
      json_response_def json_renders_def result_renders_def finite_coord_def)

section \<open>The history query and the claims about it\<close>

subsection \<open>The confidence range\<close>

text \<open>
  Claim C1, as the specification states it: under an inclusive confidence range a
  single-detector record matches iff its stored confidence lies in the range, and a
  combined record matches iff at least one of its two per-detector confidences does.

  The query compares the column \<^verbatim>\<open>confidence\<close> only. The record that the combined
  route stores has no value there, so the query for combined records in the range
  \<open>[0.5, 1]\<close> returns nothing, although the RF-DETR confidence \<open>0.75\<close> of the stored
  combined record lies in the range.
\<close>

theorem C1_counterexample:
  "p_model bobs_both_record = ''both'' \<and>
   p_rfdetr_confidence bobs_both_record = Some (3 / 4) \<and>
   (1 / 2 :: real) \<le> 3 / 4 \<and> (3 / 4 :: real) \<le> 1 \<and>
   bobs_both_record \<in> set (predictions bobs_store) \<and>
   get_predictions (\<lambda>text pattern. False) bobs_store 0 100 None (Some ''both'') None
     (Some (1 / 2)) (Some 1) = []"
  by (simp add: example_eval store_eval)

text \<open>
  Claim C1, amended: under an inclusive confidence range \<open>[lo, hi]\<close> a record matches
  iff its stored \<^verbatim>\<open>confidence\<close> column has a value and the value lies in the range;
  with no other restriction and a page that holds the whole table, the query returns
  exactly these records, and with any other restriction or page only such records. The
  record that the combined route stores has no stored \<^verbatim>\<open>confidence\<close> (its two
  per-detector confidences are in columns that the query does not read), so it matches
  no range.
\<close>

theorem C1_range_reads_stored_confidence_only:
  "confidence_filter (Some lo) (Some hi) p =
     (\<exists>c. p_confidence p = Some c \<and> lo \<le> c \<and> c \<le> hi) \<and>
   set (get_predictions like db 0 (length (predictions db)) None None None (Some lo) (Some hi)) =
     {p \<in> set (predictions db). \<exists>c. p_confidence p = Some c \<and> lo \<le> c \<and> c \<le> hi} \<and>
   set (get_predictions like db skip limit user_id model search_text (Some lo) (Some hi)) \<subseteq>
     {p \<in> set (predictions db). \<exists>c. p_confidence p = Some c \<and> lo \<le> c \<and> c \<le> hi} \<and>
   (predict_rfdetr d rt = Inr rres \<longrightarrow> predict_yolo m yt = Inr yres \<longrightarrow>
    find (duplicate_both h rt yt) (predictions db) = None \<longrightarrow>
      (\<exists>q. fst (predict_both_route db d m b64 h rt yt comment u new_id now) =
             db\<lparr>predictions := predictions db @ [q]\<rparr> \<and>
           p_model q = ''both'' \<and> p_confidence q = None \<and>
           p_rfdetr_confidence q = Some (res_confidence rres) \<and>
           p_yolo_confidence q = Some (res_confidence yres) \<and>
           \<not> confidence_filter (Some lo) (Some hi) q))"
proof -
  have 4: "predict_rfdetr d rt = Inr rres \<longrightarrow> predict_yolo m yt = Inr yres \<longrightarrow>
    find (duplicate_both h rt yt) (predictions db) = None \<longrightarrow>
      (\<exists>q. fst (predict_both_route db d m b64 h rt yt comment u new_id now) =
             db\<lparr>predictions := predictions db @ [q]\<rparr> \<and>
           p_model q = ''both'' \<and> p_confidence q = None \<and>
           p_rfdetr_confidence q = Some (res_confidence rres) \<and>
           p_yolo_confidence q = Some (res_confidence yres) \<and>
           \<not> confidence_filter (Some lo) (Some hi) q)"
  proof (intro impI)
    assume a: "predict_rfdetr d rt = Inr rres" and b: "predict_yolo m yt = Inr yres"
      and n: "find (duplicate_both h rt yt) (predictions db) = None"
    let ?q = "\<lparr>p_id = new_id, p_user_id = Some (u_id u), p_model = ''both'', p_image_url = None,
            p_image_base64 = Some b64, p_image_hash = Some h,
            p_results = CombinedResults [(''rfdetr'', rres), (''yolo'', yres)],
            p_confidence = None, p_rfdetr_confidence = Some (res_confidence rres),
            p_yolo_confidence = Some (res_confidence yres), p_confidence_threshold = None,
            p_rfdetr_threshold = Some rt, p_yolo_threshold = Some yt,
            p_comment = comment, p_created_at = now\<rparr>"
    have "fst (predict_both_route db d m b64 h rt yt comment u new_id now) =
             db\<lparr>predictions := predictions db @ [?q]\<rparr> \<and>
           p_model ?q = ''both'' \<and> p_confidence ?q = None \<and>
           p_rfdetr_confidence ?q = Some (res_confidence rres) \<and>
           p_yolo_confidence ?q = Some (res_confidence yres) \<and>
           \<not> confidence_filter (Some lo) (Some hi) ?q"
      by (simp add: predict_both_route_new [OF a b n] confidence_filter_range)
    then show "\<exists>q. fst (predict_both_route db d m b64 h rt yt comment u new_id now) =
             db\<lparr>predictions := predictions db @ [q]\<rparr> \<and>
           p_model q = ''both'' \<and> p_confidence q = None \<and>
           p_rfdetr_confidence q = Some (res_confidence rres) \<and>
           p_yolo_confidence q = Some (res_confidence yres) \<and>
           \<not> confidence_filter (Some lo) (Some hi) q"
      by (rule exI)
  qed
  show ?thesis
    by (rule conjI [OF confidence_filter_range conjI [OF get_predictions_range_only
          conjI [OF get_predictions_range_subset 4]]])
qed

theorem C1_range_reads_stored_confidence_only_witness:
  "predict_rfdetr shelf_detections (1 / 2) = Inr shelf_rfdetr_result \<and>
   predict_yolo shelf_backend (1 / 4) = Inr shelf_yolo_result \<and>
   find (duplicate_both ''abc'' (1 / 2) (1 / 4)) (predictions empty_store) = None \<and>
   fst (predict_both_route empty_store shelf_detections shelf_backend ''img'' ''abc''
          (1 / 2) (1 / 4) None bob ''p-3'' 3) =
     empty_store\<lparr>predictions := [bobs_both_record]\<rparr> \<and>
   \<not> confidence_filter (Some 0) (Some 1) bobs_both_record \<and>
   get_predictions (\<lambda>text pattern. False)
     (fst (predict_both_route empty_store shelf_detections shelf_backend ''img'' ''abc''
          (1 / 2) (1 / 4) None bob ''p-3'' 3))
     0 100 None None None (Some 0) (Some 1) = []"
  using C1_range_reads_stored_confidence_only
    [where d = shelf_detections and rt = "1 / 2" and rres = shelf_rfdetr_result
       and m = shelf_backend and yt = "1 / 4" and yres = shelf_yolo_result
       and h = "''abc''" and db = empty_store and ?b64.0 = "''img''" and comment = None
       and u = bob and new_id = "''p-3''" and now = 3 and lo = 0 and hi = 1
       and like = "\<lambda>text pattern. False"]
  by (simp add: example_eval store_eval normaliser_eval)

subsection \<open>An inverted range\<close>

text \<open>
  Claim C7, as the specification states it: a query whose minimum confidence is strictly
  greater than its maximum fails with InvalidFilter rather than being executed.

  Neither the route nor the CRUD function compares the two bounds: the query with the
  range \<open>[0.9, 0.1]\<close> is executed and answers with an empty page.
\<close>

theorem C7_counterexample:
  "(1 / 10 :: real) < 9 / 10 \<and>
   get_predictions_route (\<lambda>text pattern. False)
     \<lparr>users = [],
      predictions =
        [\<lparr>p_id = ''p1'', p_user_id = None, p_model = ''yolo'', p_image_url = None,
          p_image_base64 = None, p_image_hash = Some ''h'',
          p_results = SingleResult \<lparr>res_detections = [], res_confidence = 1 / 2, res_model = ''yolo''\<rparr>,
          p_confidence = Some (1 / 2), p_rfdetr_confidence = None, p_yolo_confidence = None,
          p_confidence_threshold = Some (2 / 5), p_rfdetr_threshold = None,
          p_yolo_threshold = Some (2 / 5), p_comment = None, p_created_at = 0\<rparr>]\<rparr>
     0 100 None None None (Some (9 / 10)) (Some (1 / 10))
   = Inr \<lparr>hp_predictions = [], hp_total = 0, hp_skip = 0, hp_limit = 100\<rparr>"
  by (simp add: get_predictions_route_def in_unit_range_def get_predictions_empty_range
      json_response_def)

text \<open>
  Claim C7, amended: a query whose minimum confidence is strictly greater than its
  maximum is not rejected for that: when both bounds lie in \<open>[0, 1]\<close> and the pagination
  is valid, the query is executed and returns the empty page.
\<close>

theorem C7_inverted_range_gives_empty_page:
  assumes "hi < lo" and "0 \<le> hi" and "lo \<le> 1"
    and "0 \<le> skip" and "1 \<le> limit" and "limit \<le> 1000"
  shows "get_predictions_route like db skip limit user_id model search_text (Some lo) (Some hi)
         = Inr \<lparr>hp_predictions = [], hp_total = 0, hp_skip = skip, hp_limit = limit\<rparr>"
  using assms
  by (simp add: get_predictions_route_def in_unit_range_def get_predictions_empty_range
      json_response_def)

theorem C7_inverted_range_gives_empty_page_witness:
  "(1 / 10 :: real) < 9 / 10 \<and> (0 :: real) \<le> 1 / 10 \<and> (9 / 10 :: real) \<le> 1 \<and>
   (0 :: int) \<le> 0 \<and> (1 :: int) \<le> 100 \<and> (100 :: int) \<le> 1000 \<and>
   get_predictions_route (\<lambda>text pattern. False) \<lparr>users = [], predictions = []\<rparr>
     0 100 None None None (Some (9 / 10)) (Some (1 / 10))
   = Inr \<lparr>hp_predictions = [], hp_total = 0, hp_skip = 0, hp_limit = 100\<rparr>"
  using C7_inverted_range_gives_empty_page
    [of "1 / 10" "9 / 10" 0 100 "\<lambda>text pattern. False" "\<lparr>users = [], predictions = []\<rparr>"
        None None None]
  by simp

subsection \<open>Pagination bounds\<close>

text \<open>
  Claim C8: a query with \<open>limit \<le> 0\<close>, \<open>limit > 1000\<close> or a negative offset is
  rejected and no page is returned. The rejection is the validation error 422 that
  FastAPI raises for the declared constraints \<^verbatim>\<open>ge=0\<close> on \<^verbatim>\<open>skip\<close> and
  \<^verbatim>\<open>ge=1, le=1000\<close> on \<^verbatim>\<open>limit\<close>.
\<close>

theorem C8_pagination_rejected:
  "limit \<le> 0 \<or> 1000 < limit \<or> skip < 0 \<Longrightarrow>
   get_predictions_route like db skip limit user_id model search_text min_confidence
     max_confidence = Inl RequestValidationError"
  by (auto simp: get_predictions_route_def)

theorem C8_pagination_rejected_witness:
  "get_predictions_route (\<lambda>text pattern. False) \<lparr>users = [], predictions = []\<rparr>
     0 (- 1) None None None None None = Inl RequestValidationError \<and>
   get_predictions_route (\<lambda>text pattern. False) \<lparr>users = [], predictions = []\<rparr>
     0 1001 None None None None None = Inl RequestValidationError \<and>
   get_predictions_route (\<lambda>text pattern. False) \<lparr>users = [], predictions = []\<rparr>
     (- 1) 100 None None None None None = Inl RequestValidationError"
  using C8_pagination_rejected
    [of "- 1" 0 "\<lambda>text pattern. False" "\<lparr>users = [], predictions = []\<rparr>" None None None None None]
    C8_pagination_rejected
    [of 1001 0 "\<lambda>text pattern. False" "\<lparr>users = [], predictions = []\<rparr>" None None None None None]
    C8_pagination_rejected
    [of 100 "- 1" "\<lambda>text pattern. False" "\<lparr>users = [], predictions = []\<rparr>" None None None None None]
  by simp

section \<open>Prediction with deduplication\<close>

text \<open>
  Claim C2, as the specification states it: for every prediction call, if the store holds
  a record with the content key, the model selector and the threshold(s) of the request,
  the call returns the identifier of that record with the duplicate flag and leaves the
  store as it was; otherwise exactly one new record is created.

  The routes run the detector and the normaliser before they look for a duplicate. When
  the normaliser raises, the call ends with the error 500: with a duplicate in the store
  it does not return the identifier of the duplicate, and with none it creates no
  record.
\<close>

theorem C2_counterexample:
  "bobs_rfdetr_record \<in> set (predictions bobs_store) \<and>
   p_image_hash bobs_rfdetr_record = Some ''abc'' \<and>
   p_model bobs_rfdetr_record = ''rfdetr'' \<and>
   p_rfdetr_threshold bobs_rfdetr_record = Some (1 / 2) \<and>
   predict_rfdetr misaligned_detections (1 / 2) = Inl IndexError \<and>
   predict_rfdetr_route bobs_store misaligned_detections ''img'' ''abc'' (1 / 2) None bob
       ''p-9'' 9 =
     (bobs_store, Inl (InternalServerError IndexError)) \<and>
   predictions empty_store = [] \<and>
   predict_rfdetr_route empty_store misaligned_detections ''img'' ''abc'' (1 / 2) None bob
       ''p-9'' 9 =
     (empty_store, Inl (InternalServerError IndexError))"
  by (simp add: example_eval store_eval normaliser_eval)

text \<open>
  Claim C2, amended: a prediction call whose normaliser raises ends with the error 500
  and leaves the store as it was. A call whose normaliser returns looks for a stored
  record whose content key, model selector and threshold(s) equal those of the request:
  if there is one, the call answers with the identifier of the first such record and the
  duplicate flag and leaves the store as it was; otherwise it appends exactly one new
  record, which has the key of the request, the new identifier, the caller as its owner
  and the results, and answers with the results, or with the error 500 when the results
  hold a non-finite number (the record stays stored).
\<close>

theorem C2_duplicate_or_one_new_record:
  "(predict_rfdetr d thr = Inl e \<longrightarrow>
      predict_rfdetr_route db d b64 h thr comment u new_id now = (db, Inl (InternalServerError e))) \<and>
   (predict_rfdetr d thr = Inr res \<longrightarrow>
      (\<exists>p\<in>set (predictions db). p_image_hash p = Some h \<and> p_model p = ''rfdetr'' \<and> p_rfdetr_threshold p = Some thr) \<longrightarrow>
      (\<exists>dup\<in>set (predictions db). p_image_hash dup = Some h \<and> p_model dup = ''rfdetr'' \<and> p_rfdetr_threshold dup = Some thr \<and>
         find (\<lambda>p. p_image_hash p = Some h \<and> p_model p = ''rfdetr'' \<and> p_rfdetr_threshold p = Some thr) (predictions db) = Some dup \<and>
         predict_rfdetr_route db d b64 h thr comment u new_id now = (db, Inr (Duplicate (p_id dup))))) \<and>
   (predict_rfdetr d thr = Inr res \<longrightarrow>
      \<not> (\<exists>p\<in>set (predictions db). p_image_hash p = Some h \<and> p_model p = ''rfdetr'' \<and> p_rfdetr_threshold p = Some thr) \<longrightarrow>
      (\<exists>p. predict_rfdetr_route db d b64 h thr comment u new_id now =
             (db\<lparr>predictions := predictions db @ [p]\<rparr>,
              if json_renders (SingleResult res)
              then Inr (Predicted (SingleResult res) new_id b64)
              else Inl (InternalServerError ValueError)) \<and>
           p_image_hash p = Some h \<and> p_model p = ''rfdetr'' \<and> p_rfdetr_threshold p = Some thr \<and>
           p_id p = new_id \<and> p_user_id p = Some (u_id u) \<and> p_results p = SingleResult res)) \<and>
   (predict_yolo m thr = Inl e \<longrightarrow>
      predict_yolo_route db m b64 h thr comment u new_id now = (db, Inl (InternalServerError e))) \<and>
   (predict_yolo m thr = Inr res \<longrightarrow>
      (\<exists>p\<in>set (predictions db). p_image_hash p = Some h \<and> p_model p = ''yolo'' \<and> p_yolo_threshold p = Some thr) \<longrightarrow>
      (\<exists>dup\<in>set (predictions db). p_image_hash dup = Some h \<and> p_model dup = ''yolo'' \<and> p_yolo_threshold dup = Some thr \<and>
         find (\<lambda>p. p_image_hash p = Some h \<and> p_model p = ''yolo'' \<and> p_yolo_threshold p = Some thr) (predictions db) = Some dup \<and>
         predict_yolo_route db m b64 h thr comment u new_id now = (db, Inr (Duplicate (p_id dup))))) \<and>
   (predict_yolo m thr = Inr res \<longrightarrow>
      \<not> (\<exists>p\<in>set (predictions db). p_image_hash p = Some h \<and> p_model p = ''yolo'' \<and> p_yolo_threshold p = Some thr) \<longrightarrow>
      (\<exists>p. predict_yolo_route db m b64 h thr comment u new_id now =
             (db\<lparr>predictions := predictions db @ [p]\<rparr>,
              if json_renders (SingleResult res)
              then Inr (Predicted (SingleResult res) new_id b64)
              else Inl (InternalServerError ValueError)) \<and>
           p_image_hash p = Some h \<and> p_model p = ''yolo'' \<and> p_yolo_threshold p = Some thr \<and>
           p_id p = new_id \<and> p_user_id p = Some (u_id u) \<and> p_results p = SingleResult res)) \<and>
   (predict_rfdetr d rt = Inl e \<longrightarrow>
      predict_both_route db d m b64 h rt yt comment u new_id now = (db, Inl (InternalServerError e))) \<and>
   (predict_rfdetr d rt = Inr rres \<longrightarrow> predict_yolo m yt = Inl e \<longrightarrow>
      predict_both_route db d m b64 h rt yt comment u new_id now = (db, Inl (InternalServerError e))) \<and>
   (predict_rfdetr d rt = Inr rres \<longrightarrow>
      predict_yolo m yt = Inr yres \<longrightarrow>
      (\<exists>p\<in>set (predictions db). p_image_hash p = Some h \<and> p_model p = ''both'' \<and> p_rfdetr_threshold p = Some rt \<and> p_yolo_threshold p = Some yt) \<longrightarrow>
      (\<exists>dup\<in>set (predictions db). p_image_hash dup = Some h \<and> p_model dup = ''both'' \<and> p_rfdetr_threshold dup = Some rt \<and> p_yolo_threshold dup = Some yt \<and>
         find (\<lambda>p. p_image_hash p = Some h \<and> p_model p = ''both'' \<and> p_rfdetr_threshold p = Some rt \<and> p_yolo_threshold p = Some yt) (predictions db) = Some dup \<and>
         predict_both_route db d m b64 h rt yt comment u new_id now = (db, Inr (Duplicate (p_id dup))))) \<and>
   (predict_rfdetr d rt = Inr rres \<longrightarrow>
      predict_yolo m yt = Inr yres \<longrightarrow>
      \<not> (\<exists>p\<in>set (predictions db). p_image_hash p = Some h \<and> p_model p = ''both'' \<and> p_rfdetr_threshold p = Some rt \<and> p_yolo_threshold p = Some yt) \<longrightarrow>
      (\<exists>p. predict_both_route db d m b64 h rt yt comment u new_id now =
             (db\<lparr>predictions := predictions db @ [p]\<rparr>,
              if json_renders (CombinedResults [(''rfdetr'', rres), (''yolo'', yres)])
              then Inr (Predicted (CombinedResults [(''rfdetr'', rres), (''yolo'', yres)]) new_id b64)
              else Inl (InternalServerError ValueError)) \<and>
           p_image_hash p = Some h \<and> p_model p = ''both'' \<and> p_rfdetr_threshold p = Some rt \<and> p_yolo_threshold p = Some yt \<and>
           p_id p = new_id \<and> p_user_id p = Some (u_id u) \<and> p_results p = CombinedResults [(''rfdetr'', rres), (''yolo'', yres)]))"
proof -
  have rf_e: "predict_rfdetr d thr = Inl e \<longrightarrow>
      predict_rfdetr_route db d b64 h thr comment u new_id now = (db, Inl (InternalServerError e))"
    by (simp add: predict_rfdetr_route_error)
  have rf_d: "predict_rfdetr d thr = Inr res \<longrightarrow>
      (\<exists>p\<in>set (predictions db). p_image_hash p = Some h \<and> p_model p = ''rfdetr'' \<and> p_rfdetr_threshold p = Some thr) \<longrightarrow>
      (\<exists>dup\<in>set (predictions db). p_image_hash dup = Some h \<and> p_model dup = ''rfdetr'' \<and> p_rfdetr_threshold dup = Some thr \<and>
         find (\<lambda>p. p_image_hash p = Some h \<and> p_model p = ''rfdetr'' \<and> p_rfdetr_threshold p = Some thr) (predictions db) = Some dup \<and>
         predict_rfdetr_route db d b64 h thr comment u new_id now = (db, Inr (Duplicate (p_id dup))))"
  proof (intro impI)
    assume a: "predict_rfdetr d thr = Inr res"
      and "\<exists>p\<in>set (predictions db). p_image_hash p = Some h \<and> p_model p = ''rfdetr'' \<and> p_rfdetr_threshold p = Some thr"
    then obtain x where x: "x \<in> set (predictions db)" "p_image_hash x = Some h \<and> p_model x = ''rfdetr'' \<and> p_rfdetr_threshold x = Some thr"
      by blast
    from find_first [of x "predictions db" "\<lambda>p. p_image_hash p = Some h \<and> p_model p = ''rfdetr'' \<and> p_rfdetr_threshold p = Some thr", OF x(1)] x(2)
    obtain dup where dup: "dup \<in> set (predictions db)" "p_image_hash dup = Some h \<and> p_model dup = ''rfdetr'' \<and> p_rfdetr_threshold dup = Some thr"
      "find (\<lambda>p. p_image_hash p = Some h \<and> p_model p = ''rfdetr'' \<and> p_rfdetr_threshold p = Some thr) (predictions db) = Some dup"
      by blast
    from dup(3) have "find (duplicate_rfdetr h thr) (predictions db) = Some dup"
      by (simp only: duplicate_rfdetr_key)
    then have "predict_rfdetr_route db d b64 h thr comment u new_id now = (db, Inr (Duplicate (p_id dup)))"
      by (rule predict_rfdetr_route_duplicate [OF a])
    with dup show "(\<exists>dup\<in>set (predictions db). p_image_hash dup = Some h \<and> p_model dup = ''rfdetr'' \<and> p_rfdetr_threshold dup = Some thr \<and>
         find (\<lambda>p. p_image_hash p = Some h \<and> p_model p = ''rfdetr'' \<and> p_rfdetr_threshold p = Some thr) (predictions db) = Some dup \<and>
         predict_rfdetr_route db d b64 h thr comment u new_id now = (db, Inr (Duplicate (p_id dup))))"
      by blast
  qed
  have rf_n: "predict_rfdetr d thr = Inr res \<longrightarrow>
      \<not> (\<exists>p\<in>set (predictions db). p_image_hash p = Some h \<and> p_model p = ''rfdetr'' \<and> p_rfdetr_threshold p = Some thr) \<longrightarrow>
      (\<exists>p. predict_rfdetr_route db d b64 h thr comment u new_id now =
             (db\<lparr>predictions := predictions db @ [p]\<rparr>,
              if json_renders (SingleResult res)
              then Inr (Predicted (SingleResult res) new_id b64)
              else Inl (InternalServerError ValueError)) \<and>
           p_image_hash p = Some h \<and> p_model p = ''rfdetr'' \<and> p_rfdetr_threshold p = Some thr \<and>
           p_id p = new_id \<and> p_user_id p = Some (u_id u) \<and> p_results p = SingleResult res)"
  proof (intro impI)
    assume a: "predict_rfdetr d thr = Inr res"
      and "\<not> (\<exists>p\<in>set (predictions db). p_image_hash p = Some h \<and> p_model p = ''rfdetr'' \<and> p_rfdetr_threshold p = Some thr)"
    then have "find (\<lambda>p. p_image_hash p = Some h \<and> p_model p = ''rfdetr'' \<and> p_rfdetr_threshold p = Some thr) (predictions db) = None"
      by (intro find_none)
    then have "find (duplicate_rfdetr h thr) (predictions db) = None"
      by (simp only: duplicate_rfdetr_key)
    note eq = predict_rfdetr_route_new [OF a this, unfolded json_response_def]
    show "(\<exists>p. predict_rfdetr_route db d b64 h thr comment u new_id now =
             (db\<lparr>predictions := predictions db @ [p]\<rparr>,
              if json_renders (SingleResult res)
              then Inr (Predicted (SingleResult res) new_id b64)
              else Inl (InternalServerError ValueError)) \<and>
           p_image_hash p = Some h \<and> p_model p = ''rfdetr'' \<and> p_rfdetr_threshold p = Some thr \<and>
           p_id p = new_id \<and> p_user_id p = Some (u_id u) \<and> p_results p = SingleResult res)"
      by (subst eq, intro exI conjI, rule refl, simp_all)
  qed
  have yo_e: "predict_yolo m thr = Inl e \<longrightarrow>
      predict_yolo_route db m b64 h thr comment u new_id now = (db, Inl (InternalServerError e))"
    by (simp add: predict_yolo_route_error)
  have yo_d: "predict_yolo m thr = Inr res \<longrightarrow>
      (\<exists>p\<in>set (predictions db). p_image_hash p = Some h \<and> p_model p = ''yolo'' \<and> p_yolo_threshold p = Some thr) \<longrightarrow>
      (\<exists>dup\<in>set (predictions db). p_image_hash dup = Some h \<and> p_model dup = ''yolo'' \<and> p_yolo_threshold dup = Some thr \<and>
         find (\<lambda>p. p_image_hash p = Some h \<and> p_model p = ''yolo'' \<and> p_yolo_threshold p = Some thr) (predictions db) = Some dup \<and>
         predict_yolo_route db m b64 h thr comment u new_id now = (db, Inr (Duplicate (p_id dup))))"
  proof (intro impI)
    assume a: "predict_yolo m thr = Inr res"
      and "\<exists>p\<in>set (predictions db). p_image_hash p = Some h \<and> p_model p = ''yolo'' \<and> p_yolo_threshold p = Some thr"
    then obtain x where x: "x \<in> set (predictions db)" "p_image_hash x = Some h \<and> p_model x = ''yolo'' \<and> p_yolo_threshold x = Some thr"
      by blast
    from find_first [of x "predictions db" "\<lambda>p. p_image_hash p = Some h \<and> p_model p = ''yolo'' \<and> p_yolo_threshold p = Some thr", OF x(1)] x(2)
    obtain dup where dup: "dup \<in> set (predictions db)" "p_image_hash dup = Some h \<and> p_model dup = ''yolo'' \<and> p_yolo_threshold dup = Some thr"
      "find (\<lambda>p. p_image_hash p = Some h \<and> p_model p = ''yolo'' \<and> p_yolo_threshold p = Some thr) (predictions db) = Some dup"
      by blast
    from dup(3) have "find (duplicate_yolo h thr) (predictions db) = Some dup"
      by (simp only: duplicate_yolo_key)
    then have "predict_yolo_route db m b64 h thr comment u new_id now = (db, Inr (Duplicate (p_id dup)))"
      by (rule predict_yolo_route_duplicate [OF a])
    with dup show "(\<exists>dup\<in>set (predictions db). p_image_hash dup = Some h \<and> p_model dup = ''yolo'' \<and> p_yolo_threshold dup = Some thr \<and>
         find (\<lambda>p. p_image_hash p = Some h \<and> p_model p = ''yolo'' \<and> p_yolo_threshold p = Some thr) (predictions db) = Some dup \<and>
         predict_yolo_route db m b64 h thr comment u new_id now = (db, Inr (Duplicate (p_id dup))))"
      by blast
  qed
  have yo_n: "predict_yolo m thr = Inr res \<longrightarrow>
      \<not> (\<exists>p\<in>set (predictions db). p_image_hash p = Some h \<and> p_model p = ''yolo'' \<and> p_yolo_threshold p = Some thr) \<longrightarrow>
      (\<exists>p. predict_yolo_route db m b64 h thr comment u new_id now =
             (db\<lparr>predictions := predictions db @ [p]\<rparr>,
              if json_renders (SingleResult res)
              then Inr (Predicted (SingleResult res) new_id b64)
              else Inl (InternalServerError ValueError)) \<and>
           p_image_hash p = Some h \<and> p_model p = ''yolo'' \<and> p_yolo_threshold p = Some thr \<and>
           p_id p = new_id \<and> p_user_id p = Some (u_id u) \<and> p_results p = SingleResult res)"
  proof (intro impI)
    assume a: "predict_yolo m thr = Inr res"
      and "\<not> (\<exists>p\<in>set (predictions db). p_image_hash p = Some h \<and> p_model p = ''yolo'' \<and> p_yolo_threshold p = Some thr)"
    then have "find (\<lambda>p. p_image_hash p = Some h \<and> p_model p = ''yolo'' \<and> p_yolo_threshold p = Some thr) (predictions db) = None"
      by (intro find_none)
    then have "find (duplicate_yolo h thr) (predictions db) = None"
      by (simp only: duplicate_yolo_key)
    note eq = predict_yolo_route_new [OF a this, unfolded json_response_def]
    show "(\<exists>p. predict_yolo_route db m b64 h thr comment u new_id now =
             (db\<lparr>predictions := predictions db @ [p]\<rparr>,
              if json_renders (SingleResult res)
              then Inr (Predicted (SingleResult res) new_id b64)
              else Inl (InternalServerError ValueError)) \<and>
           p_image_hash p = Some h \<and> p_model p = ''yolo'' \<and> p_yolo_threshold p = Some thr \<and>
           p_id p = new_id \<and> p_user_id p = Some (u_id u) \<and> p_results p = SingleResult res)"
      by (subst eq, intro exI conjI, rule refl, simp_all)
  qed
  have bo_e: "predict_rfdetr d rt = Inl e \<longrightarrow>
      predict_both_route db d m b64 h rt yt comment u new_id now = (db, Inl (InternalServerError e))"
    by (simp add: predict_both_route_error_rfdetr)
  have bo_f: "predict_rfdetr d rt = Inr rres \<longrightarrow> predict_yolo m yt = Inl e \<longrightarrow>
      predict_both_route db d m b64 h rt yt comment u new_id now = (db, Inl (InternalServerError e))"
    by (simp add: predict_both_route_error_yolo)
  have bo_d: "predict_rfdetr d rt = Inr rres \<longrightarrow>
      predict_yolo m yt = Inr yres \<longrightarrow>
      (\<exists>p\<in>set (predictions db). p_image_hash p = Some h \<and> p_model p = ''both'' \<and> p_rfdetr_threshold p = Some rt \<and> p_yolo_threshold p = Some yt) \<longrightarrow>
      (\<exists>dup\<in>set (predictions db). p_image_hash dup = Some h \<and> p_model dup = ''both'' \<and> p_rfdetr_threshold dup = Some rt \<and> p_yolo_threshold dup = Some yt \<and>
         find (\<lambda>p. p_image_hash p = Some h \<and> p_model p = ''both'' \<and> p_rfdetr_threshold p = Some rt \<and> p_yolo_threshold p = Some yt) (predictions db) = Some dup \<and>
         predict_both_route db d m b64 h rt yt comment u new_id now = (db, Inr (Duplicate (p_id dup))))"
  proof (intro impI)
    assume a: "predict_rfdetr d rt = Inr rres" and b: "predict_yolo m yt = Inr yres"
      and "\<exists>p\<in>set (predictions db). p_image_hash p = Some h \<and> p_model p = ''both'' \<and> p_rfdetr_threshold p = Some rt \<and> p_yolo_threshold p = Some yt"
    then obtain x where x: "x \<in> set (predictions db)" "p_image_hash x = Some h \<and> p_model x = ''both'' \<and> p_rfdetr_threshold x = Some rt \<and> p_yolo_threshold x = Some yt"
      by blast
    from find_first [of x "predictions db" "\<lambda>p. p_image_hash p = Some h \<and> p_model p = ''both'' \<and> p_rfdetr_threshold p = Some rt \<and> p_yolo_threshold p = Some yt", OF x(1)] x(2)
    obtain dup where dup: "dup \<in> set (predictions db)" "p_image_hash dup = Some h \<and> p_model dup = ''both'' \<and> p_rfdetr_threshold dup = Some rt \<and> p_yolo_threshold dup = Some yt"
      "find (\<lambda>p. p_image_hash p = Some h \<and> p_model p = ''both'' \<and> p_rfdetr_threshold p = Some rt \<and> p_yolo_threshold p = Some yt) (predictions db) = Some dup"
      by blast
    from dup(3) have "find (duplicate_both h rt yt) (predictions db) = Some dup"
      by (simp only: duplicate_both_key)
    then have "predict_both_route db d m b64 h rt yt comment u new_id now = (db, Inr (Duplicate (p_id dup)))"
      by (rule predict_both_route_duplicate [OF a b])
    with dup show "(\<exists>dup\<in>set (predictions db). p_image_hash dup = Some h \<and> p_model dup = ''both'' \<and> p_rfdetr_threshold dup = Some rt \<and> p_yolo_threshold dup = Some yt \<and>
         find (\<lambda>p. p_image_hash p = Some h \<and> p_model p = ''both'' \<and> p_rfdetr_threshold p = Some rt \<and> p_yolo_threshold p = Some yt) (predictions db) = Some dup \<and>
         predict_both_route db d m b64 h rt yt comment u new_id now = (db, Inr (Duplicate (p_id dup))))"
      by blast
  qed
  have bo_n: "predict_rfdetr d rt = Inr rres \<longrightarrow>
      predict_yolo m yt = Inr yres \<longrightarrow>
      \<not> (\<exists>p\<in>set (predictions db). p_image_hash p = Some h \<and> p_model p = ''both'' \<and> p_rfdetr_threshold p = Some rt \<and> p_yolo_threshold p = Some yt) \<longrightarrow>
      (\<exists>p. predict_both_route db d m b64 h rt yt comment u new_id now =
             (db\<lparr>predictions := predictions db @ [p]\<rparr>,
              if json_renders (CombinedResults [(''rfdetr'', rres), (''yolo'', yres)])
              then Inr (Predicted (CombinedResults [(''rfdetr'', rres), (''yolo'', yres)]) new_id b64)
              else Inl (InternalServerError ValueError)) \<and>
           p_image_hash p = Some h \<and> p_model p = ''both'' \<and> p_rfdetr_threshold p = Some rt \<and> p_yolo_threshold p = Some yt \<and>
           p_id p = new_id \<and> p_user_id p = Some (u_id u) \<and> p_results p = CombinedResults [(''rfdetr'', rres), (''yolo'', yres)])"
  proof (intro impI)
    assume a: "predict_rfdetr d rt = Inr rres" and b: "predict_yolo m yt = Inr yres"
      and "\<not> (\<exists>p\<in>set (predictions db). p_image_hash p = Some h \<and> p_model p = ''both'' \<and> p_rfdetr_threshold p = Some rt \<and> p_yolo_threshold p = Some yt)"
    then have "find (\<lambda>p. p_image_hash p = Some h \<and> p_model p = ''both'' \<and> p_rfdetr_threshold p = Some rt \<and> p_yolo_threshold p = Some yt) (predictions db) = None"
      by (intro find_none)
    then have "find (duplicate_both h rt yt) (predictions db) = None"
      by (simp only: duplicate_both_key)
    note eq = predict_both_route_new [OF a b this, unfolded json_response_def]
    show "(\<exists>p. predict_both_route db d m b64 h rt yt comment u new_id now =
             (db\<lparr>predictions := predictions db @ [p]\<rparr>,
              if json_renders (CombinedResults [(''rfdetr'', rres), (''yolo'', yres)])
              then Inr (Predicted (CombinedResults [(''rfdetr'', rres), (''yolo'', yres)]) new_id b64)
              else Inl (InternalServerError ValueError)) \<and>
           p_image_hash p = Some h \<and> p_model p = ''both'' \<and> p_rfdetr_threshold p = Some rt \<and> p_yolo_threshold p = Some yt \<and>
           p_id p = new_id \<and> p_user_id p = Some (u_id u) \<and> p_results p = CombinedResults [(''rfdetr'', rres), (''yolo'', yres)])"
      by (subst eq, intro exI conjI, rule refl, simp_all)
  qed
  show ?thesis
    by (rule conjI [OF rf_e conjI [OF rf_d conjI [OF rf_n conjI [OF yo_e conjI [OF yo_d conjI [OF yo_n conjI [OF bo_e conjI [OF bo_f conjI [OF bo_d bo_n]]]]]]]]])
qed

theorem C2_duplicate_or_one_new_record_witness:
  "predict_rfdetr shelf_detections (1 / 2) = Inr shelf_rfdetr_result \<and>
   predict_yolo shelf_backend (1 / 4) = Inr shelf_yolo_result \<and>
   predict_yolo nan_backend (1 / 4) = Inr nan_yolo_result \<and>
   predict_rfdetr misaligned_detections (1 / 2) = Inl IndexError \<and>
   bobs_rfdetr_record \<in> set (predictions bobs_store) \<and>
   p_image_hash bobs_rfdetr_record = Some ''abc'' \<and>
   p_model bobs_rfdetr_record = ''rfdetr'' \<and>
   p_rfdetr_threshold bobs_rfdetr_record = Some (1 / 2) \<and>
   predict_rfdetr_route bobs_store shelf_detections ''img'' ''abc'' (1 / 2) None bob ''p-9'' 9 =
     (bobs_store, Inr (Duplicate ''p-1'')) \<and>
   predict_rfdetr_route empty_store shelf_detections ''img'' ''abc'' (1 / 2) None bob ''p-1'' 1 =
     (empty_store\<lparr>predictions := [bobs_rfdetr_record]\<rparr>,
      Inr (Predicted (SingleResult shelf_rfdetr_result) ''p-1'' ''img'')) \<and>
   predict_yolo_route bobs_store shelf_backend ''img'' ''abc'' (1 / 4) None bob ''p-9'' 9 =
     (bobs_store, Inr (Duplicate ''p-2'')) \<and>
   \<not> json_renders (SingleResult nan_yolo_result) \<and>
   predict_yolo_route empty_store nan_backend ''img'' ''abc'' (1 / 4) None bob ''p-2'' 2 =
     (empty_store\<lparr>predictions :=
        [bobs_yolo_record\<lparr>p_results := SingleResult nan_yolo_result\<rparr>]\<rparr>,
      Inl (InternalServerError ValueError)) \<and>
   predict_both_route bobs_store shelf_detections shelf_backend ''img'' ''abc'' (1 / 2) (1 / 4)
       None bob ''p-9'' 9 =
     (bobs_store, Inr (Duplicate ''p-3'')) \<and>
   predict_both_route empty_store shelf_detections shelf_backend ''img'' ''abc'' (1 / 2) (1 / 4)
       None bob ''p-3'' 3 =
     (empty_store\<lparr>predictions := [bobs_both_record]\<rparr>,
      Inr (Predicted
             (CombinedResults [(''rfdetr'', shelf_rfdetr_result), (''yolo'', shelf_yolo_result)])
             ''p-3'' ''img''))"
  using C2_duplicate_or_one_new_record
    [where d = shelf_detections and thr = "1 / 2" and res = shelf_rfdetr_result
       and db = bobs_store and h = "''abc''" and ?b64.0 = "''img''" and comment = None
       and u = bob and new_id = "''p-9''" and now = 9
       and rt = "1 / 2" and rres = shelf_rfdetr_result
       and m = shelf_backend and yt = "1 / 4" and yres = shelf_yolo_result
       and e = IndexError]
    C2_duplicate_or_one_new_record
    [where d = shelf_detections and thr = "1 / 2" and res = shelf_rfdetr_result
       and db = empty_store and h = "''abc''" and ?b64.0 = "''img''" and comment = None
       and u = bob and new_id = "''p-1''" and now = 1
       and rt = "1 / 2" and rres = shelf_rfdetr_result
       and m = shelf_backend and yt = "1 / 4" and yres = shelf_yolo_result
       and e = IndexError]
    C2_duplicate_or_one_new_record
    [where d = misaligned_detections and thr = "1 / 4" and res = nan_yolo_result
       and db = empty_store and h = "''abc''" and ?b64.0 = "''img''" and comment = None
       and u = bob and new_id = "''p-2''" and now = 2
       and rt = "1 / 2" and rres = shelf_rfdetr_result
       and m = nan_backend and yt = "1 / 4" and yres = nan_yolo_result
       and e = IndexError]
    C2_duplicate_or_one_new_record
    [where d = shelf_detections and thr = "1 / 4" and res = shelf_yolo_result
       and db = empty_store and h = "''abc''" and ?b64.0 = "''img''" and comment = None
       and u = bob and new_id = "''p-3''" and now = 3
       and rt = "1 / 2" and rres = shelf_rfdetr_result
       and m = shelf_backend and yt = "1 / 4" and yres = shelf_yolo_result
       and e = IndexError]
  by (simp add: example_eval store_eval normaliser_eval)

text \<open>
  Claim C10, as the specification states it: the duplicate lookup matches on content key,
  model selector and threshold(s) only, never on the caller: for every prediction call a
  stored record with the key of the request that another owner created makes the call
  short-circuit as a duplicate of that record, and no record is created for the caller.

  The lookup runs after the normaliser: when the normaliser raises, the call ends with
  the error 500 and not as a duplicate, whoever owns the stored record.
\<close>

theorem C10_counterexample:
  "bobs_yolo_record \<in> set (predictions bobs_store) \<and>
   p_image_hash bobs_yolo_record = Some ''abc'' \<and>
   p_model bobs_yolo_record = ''yolo'' \<and>
   p_yolo_threshold bobs_yolo_record = Some (1 / 4) \<and>
   p_user_id bobs_yolo_record \<noteq> Some (u_id alice) \<and>
   predict_yolo unnamed_backend (1 / 4) = Inl KeyError \<and>
   predict_yolo_route bobs_store unnamed_backend ''img'' ''abc'' (1 / 4) None alice ''p-9'' 9 =
     (bobs_store, Inl (InternalServerError KeyError))"
  by (simp add: example_eval store_eval normaliser_eval)

text \<open>
  Claim C10, amended: when the store holds a record with the content key, the model
  selector and the threshold(s) of the request that belongs to another owner than the
  caller, a prediction call creates no record, its outcome is the same for every
  caller, and, when its normaliser returns, it answers with the duplicate flag and the
  identifier of the first stored record with that key, whoever owns it.
\<close>

theorem C10_lookup_ignores_owner:
  "(other \<in> set (predictions db) \<longrightarrow> p_image_hash other = Some h \<longrightarrow> p_model other = ''rfdetr'' \<longrightarrow> p_rfdetr_threshold other = Some thr \<longrightarrow>
      p_user_id other \<noteq> Some (u_id u) \<longrightarrow>
      fst (predict_rfdetr_route db d b64 h thr comment u new_id now) = db \<and>
      predict_rfdetr_route db d b64 h thr comment u new_id now = predict_rfdetr_route db d b64 h thr comment u' new_id now \<and>
      (predict_rfdetr d thr = Inr res \<longrightarrow>
        (\<exists>dup\<in>set (predictions db). p_image_hash dup = Some h \<and> p_model dup = ''rfdetr'' \<and> p_rfdetr_threshold dup = Some thr \<and>
           find (\<lambda>p. p_image_hash p = Some h \<and> p_model p = ''rfdetr'' \<and> p_rfdetr_threshold p = Some thr) (predictions db) = Some dup \<and>
           predict_rfdetr_route db d b64 h thr comment u new_id now = (db, Inr (Duplicate (p_id dup)))))) \<and>
   (other \<in> set (predictions db) \<longrightarrow> p_image_hash other = Some h \<longrightarrow> p_model other = ''yolo'' \<longrightarrow> p_yolo_threshold other = Some thr \<longrightarrow>
      p_user_id other \<noteq> Some (u_id u) \<longrightarrow>
      fst (predict_yolo_route db m b64 h thr comment u new_id now) = db \<and>
      predict_yolo_route db m b64 h thr comment u new_id now = predict_yolo_route db m b64 h thr comment u' new_id now \<and>
      (predict_yolo m thr = Inr res \<longrightarrow>
        (\<exists>dup\<in>set (predictions db). p_image_hash dup = Some h \<and> p_model dup = ''yolo'' \<and> p_yolo_threshold dup = Some thr \<and>
           find (\<lambda>p. p_image_hash p = Some h \<and> p_model p = ''yolo'' \<and> p_yolo_threshold p = Some thr) (predictions db) = Some dup \<and>
           predict_yolo_route db m b64 h thr comment u new_id now = (db, Inr (Duplicate (p_id dup)))))) \<and>
   (other \<in> set (predictions db) \<longrightarrow> p_image_hash other = Some h \<longrightarrow> p_model other = ''both'' \<longrightarrow> p_rfdetr_threshold other = Some rt \<longrightarrow> p_yolo_threshold other = Some yt \<longrightarrow>
      p_user_id other \<noteq> Some (u_id u) \<longrightarrow>
      fst (predict_both_route db d m b64 h rt yt comment u new_id now) = db \<and>
      predict_both_route db d m b64 h rt yt comment u new_id now = predict_both_route db d m b64 h rt yt comment u' new_id now \<and>
      (predict_rfdetr d rt = Inr rres \<longrightarrow>
      predict_yolo m yt = Inr yres \<longrightarrow>
        (\<exists>dup\<in>set (predictions db). p_image_hash dup = Some h \<and> p_model dup = ''both'' \<and> p_rfdetr_threshold dup = Some rt \<and> p_yolo_threshold dup = Some yt \<and>
           find (\<lambda>p. p_image_hash p = Some h \<and> p_model p = ''both'' \<and> p_rfdetr_threshold p = Some rt \<and> p_yolo_threshold p = Some yt) (predictions db) = Some dup \<and>
           predict_both_route db d m b64 h rt yt comment u new_id now = (db, Inr (Duplicate (p_id dup))))))"
proof -
  have rf: "other \<in> set (predictions db) \<longrightarrow> p_image_hash other = Some h \<longrightarrow> p_model other = ''rfdetr'' \<longrightarrow> p_rfdetr_threshold other = Some thr \<longrightarrow>
      p_user_id other \<noteq> Some (u_id u) \<longrightarrow>
      fst (predict_rfdetr_route db d b64 h thr comment u new_id now) = db \<and>
      predict_rfdetr_route db d b64 h thr comment u new_id now = predict_rfdetr_route db d b64 h thr comment u' new_id now \<and>
      (predict_rfdetr d thr = Inr res \<longrightarrow>
        (\<exists>dup\<in>set (predictions db). p_image_hash dup = Some h \<and> p_model dup = ''rfdetr'' \<and> p_rfdetr_threshold dup = Some thr \<and>
           find (\<lambda>p. p_image_hash p = Some h \<and> p_model p = ''rfdetr'' \<and> p_rfdetr_threshold p = Some thr) (predictions db) = Some dup \<and>
           predict_rfdetr_route db d b64 h thr comment u new_id now = (db, Inr (Duplicate (p_id dup)))))"
  proof (intro impI)
    assume o: "other \<in> set (predictions db)" and k: "p_image_hash other = Some h" "p_model other = ''rfdetr''" "p_rfdetr_threshold other = Some thr"
    from find_first [of other "predictions db" "\<lambda>p. p_image_hash p = Some h \<and> p_model p = ''rfdetr'' \<and> p_rfdetr_threshold p = Some thr", OF o] k
    obtain dup where dup: "dup \<in> set (predictions db)" "p_image_hash dup = Some h \<and> p_model dup = ''rfdetr'' \<and> p_rfdetr_threshold dup = Some thr"
      "find (\<lambda>p. p_image_hash p = Some h \<and> p_model p = ''rfdetr'' \<and> p_rfdetr_threshold p = Some thr) (predictions db) = Some dup"
      by blast
    from dup(3) have f: "find (duplicate_rfdetr h thr) (predictions db) = Some dup"
      by (simp only: duplicate_rfdetr_key)
    have st: "fst (predict_rfdetr_route db d b64 h thr comment u new_id now) = db"
      by (simp add: predict_rfdetr_route_found [OF f])
    have ca: "predict_rfdetr_route db d b64 h thr comment u new_id now = predict_rfdetr_route db d b64 h thr comment u' new_id now"
      by (simp add: predict_rfdetr_route_found [OF f])
    have du: "predict_rfdetr d thr = Inr res \<longrightarrow>
        (\<exists>dup\<in>set (predictions db). p_image_hash dup = Some h \<and> p_model dup = ''rfdetr'' \<and> p_rfdetr_threshold dup = Some thr \<and>
           find (\<lambda>p. p_image_hash p = Some h \<and> p_model p = ''rfdetr'' \<and> p_rfdetr_threshold p = Some thr) (predictions db) = Some dup \<and>
           predict_rfdetr_route db d b64 h thr comment u new_id now = (db, Inr (Duplicate (p_id dup))))"
      using dup by (auto simp: predict_rfdetr_route_found [OF f])
    show "fst (predict_rfdetr_route db d b64 h thr comment u new_id now) = db \<and>
      predict_rfdetr_route db d b64 h thr comment u new_id now = predict_rfdetr_route db d b64 h thr comment u' new_id now \<and>
      (predict_rfdetr d thr = Inr res \<longrightarrow>
        (\<exists>dup\<in>set (predictions db). p_image_hash dup = Some h \<and> p_model dup = ''rfdetr'' \<and> p_rfdetr_threshold dup = Some thr \<and>
           find (\<lambda>p. p_image_hash p = Some h \<and> p_model p = ''rfdetr'' \<and> p_rfdetr_threshold p = Some thr) (predictions db) = Some dup \<and>
           predict_rfdetr_route db d b64 h thr comment u new_id now = (db, Inr (Duplicate (p_id dup)))))"
      by (rule conjI [OF st conjI [OF ca du]])
  qed
  have yo: "other \<in> set (predictions db) \<longrightarrow> p_image_hash other = Some h \<longrightarrow> p_model other = ''yolo'' \<longrightarrow> p_yolo_threshold other = Some thr \<longrightarrow>
      p_user_id other \<noteq> Some (u_id u) \<longrightarrow>
      fst (predict_yolo_route db m b64 h thr comment u new_id now) = db \<and>
      predict_yolo_route db m b64 h thr comment u new_id now = predict_yolo_route db m b64 h thr comment u' new_id now \<and>
      (predict_yolo m thr = Inr res \<longrightarrow>
        (\<exists>dup\<in>set (predictions db). p_image_hash dup = Some h \<and> p_model dup = ''yolo'' \<and> p_yolo_threshold dup = Some thr \<and>
           find (\<lambda>p. p_image_hash p = Some h \<and> p_model p = ''yolo'' \<and> p_yolo_threshold p = Some thr) (predictions db) = Some dup \<and>
           predict_yolo_route db m b64 h thr comment u new_id now = (db, Inr (Duplicate (p_id dup)))))"
  proof (intro impI)
    assume o: "other \<in> set (predictions db)" and k: "p_image_hash other = Some h" "p_model other = ''yolo''" "p_yolo_threshold other = Some thr"
    from find_first [of other "predictions db" "\<lambda>p. p_image_hash p = Some h \<and> p_model p = ''yolo'' \<and> p_yolo_threshold p = Some thr", OF o] k
    obtain dup where dup: "dup \<in> set (predictions db)" "p_image_hash dup = Some h \<and> p_model dup = ''yolo'' \<and> p_yolo_threshold dup = Some thr"
      "find (\<lambda>p. p_image_hash p = Some h \<and> p_model p = ''yolo'' \<and> p_yolo_threshold p = Some thr) (predictions db) = Some dup"
      by blast
    from dup(3) have f: "find (duplicate_yolo h thr) (predictions db) = Some dup"
      by (simp only: duplicate_yolo_key)
    have st: "fst (predict_yolo_route db m b64 h thr comment u new_id now) = db"
      by (simp add: predict_yolo_route_found [OF f])
    have ca: "predict_yolo_route db m b64 h thr comment u new_id now = predict_yolo_route db m b64 h thr comment u' new_id now"
      by (simp add: predict_yolo_route_found [OF f])
    have du: "predict_yolo m thr = Inr res \<longrightarrow>
        (\<exists>dup\<in>set (predictions db). p_image_hash dup = Some h \<and> p_model dup = ''yolo'' \<and> p_yolo_threshold dup = Some thr \<and>
           find (\<lambda>p. p_image_hash p = Some h \<and> p_model p = ''yolo'' \<and> p_yolo_threshold p = Some thr) (predictions db) = Some dup \<and>
           predict_yolo_route db m b64 h thr comment u new_id now = (db, Inr (Duplicate (p_id dup))))"
      using dup by (auto simp: predict_yolo_route_found [OF f])
    show "fst (predict_yolo_route db m b64 h thr comment u new_id now) = db \<and>
      predict_yolo_route db m b64 h thr comment u new_id now = predict_yolo_route db m b64 h thr comment u' new_id now \<and>
      (predict_yolo m thr = Inr res \<longrightarrow>
        (\<exists>dup\<in>set (predictions db). p_image_hash dup = Some h \<and> p_model dup = ''yolo'' \<and> p_yolo_threshold dup = Some thr \<and>
           find (\<lambda>p. p_image_hash p = Some h \<and> p_model p = ''yolo'' \<and> p_yolo_threshold p = Some thr) (predictions db) = Some dup \<and>
           predict_yolo_route db m b64 h thr comment u new_id now = (db, Inr (Duplicate (p_id dup)))))"
      by (rule conjI [OF st conjI [OF ca du]])
  qed
  have bo: "other \<in> set (predictions db) \<longrightarrow> p_image_hash other = Some h \<longrightarrow> p_model other = ''both'' \<longrightarrow> p_rfdetr_threshold other = Some rt \<longrightarrow> p_yolo_threshold other = Some yt \<longrightarrow>
      p_user_id other \<noteq> Some (u_id u) \<longrightarrow>
      fst (predict_both_route db d m b64 h rt yt comment u new_id now) = db \<and>
      predict_both_route db d m b64 h rt yt comment u new_id now = predict_both_route db d m b64 h rt yt comment u' new_id now \<and>
      (predict_rfdetr d rt = Inr rres \<longrightarrow>
      predict_yolo m yt = Inr yres \<longrightarrow>
        (\<exists>dup\<in>set (predictions db). p_image_hash dup = Some h \<and> p_model dup = ''both'' \<and> p_rfdetr_threshold dup = Some rt \<and> p_yolo_threshold dup = Some yt \<and>
           find (\<lambda>p. p_image_hash p = Some h \<and> p_model p = ''both'' \<and> p_rfdetr_threshold p = Some rt \<and> p_yolo_threshold p = Some yt) (predictions db) = Some dup \<and>
           predict_both_route db d m b64 h rt yt comment u new_id now = (db, Inr (Duplicate (p_id dup)))))"
  proof (intro impI)
    assume o: "other \<in> set (predictions db)" and k: "p_image_hash other = Some h" "p_model other = ''both''" "p_rfdetr_threshold other = Some rt" "p_yolo_threshold other = Some yt"
    from find_first [of other "predictions db" "\<lambda>p. p_image_hash p = Some h \<and> p_model p = ''both'' \<and> p_rfdetr_threshold p = Some rt \<and> p_yolo_threshold p = Some yt", OF o] k
    obtain dup where dup: "dup \<in> set (predictions db)" "p_image_hash dup = Some h \<and> p_model dup = ''both'' \<and> p_rfdetr_threshold dup = Some rt \<and> p_yolo_threshold dup = Some yt"
      "find (\<lambda>p. p_image_hash p = Some h \<and> p_model p = ''both'' \<and> p_rfdetr_threshold p = Some rt \<and> p_yolo_threshold p = Some yt) (predictions db) = Some dup"
      by blast
    from dup(3) have f: "find (duplicate_both h rt yt) (predictions db) = Some dup"
      by (simp only: duplicate_both_key)
    have st: "fst (predict_both_route db d m b64 h rt yt comment u new_id now) = db"
      by (simp add: predict_both_route_found [OF f])
    have ca: "predict_both_route db d m b64 h rt yt comment u new_id now = predict_both_route db d m b64 h rt yt comment u' new_id now"
      by (simp add: predict_both_route_found [OF f])
    have du: "predict_rfdetr d rt = Inr rres \<longrightarrow>
      predict_yolo m yt = Inr yres \<longrightarrow>
        (\<exists>dup\<in>set (predictions db). p_image_hash dup = Some h \<and> p_model dup = ''both'' \<and> p_rfdetr_threshold dup = Some rt \<and> p_yolo_threshold dup = Some yt \<and>
           find (\<lambda>p. p_image_hash p = Some h \<and> p_model p = ''both'' \<and> p_rfdetr_threshold p = Some rt \<and> p_yolo_threshold p = Some yt) (predictions db) = Some dup \<and>
           predict_both_route db d m b64 h rt yt comment u new_id now = (db, Inr (Duplicate (p_id dup))))"
      using dup by (auto simp: predict_both_route_found [OF f])
    show "fst (predict_both_route db d m b64 h rt yt comment u new_id now) = db \<and>
      predict_both_route db d m b64 h rt yt comment u new_id now = predict_both_route db d m b64 h rt yt comment u' new_id now \<and>
      (predict_rfdetr d rt = Inr rres \<longrightarrow>
      predict_yolo m yt = Inr yres \<longrightarrow>
        (\<exists>dup\<in>set (predictions db). p_image_hash dup = Some h \<and> p_model dup = ''both'' \<and> p_rfdetr_threshold dup = Some rt \<and> p_yolo_threshold dup = Some yt \<and>
           find (\<lambda>p. p_image_hash p = Some h \<and> p_model p = ''both'' \<and> p_rfdetr_threshold p = Some rt \<and> p_yolo_threshold p = Some yt) (predictions db) = Some dup \<and>
           predict_both_route db d m b64 h rt yt comment u new_id now = (db, Inr (Duplicate (p_id dup)))))"
      by (rule conjI [OF st conjI [OF ca du]])
  qed
  show ?thesis
    by (rule conjI [OF rf conjI [OF yo bo]])
qed

theorem C10_lookup_ignores_owner_witness:
  "bobs_rfdetr_record \<in> set (predictions bobs_store) \<and>
   p_image_hash bobs_rfdetr_record = Some ''abc'' \<and>
   p_model bobs_rfdetr_record = ''rfdetr'' \<and>
   p_rfdetr_threshold bobs_rfdetr_record = Some (1 / 2) \<and>
   p_user_id bobs_rfdetr_record \<noteq> Some (u_id alice) \<and>
   predict_rfdetr shelf_detections (1 / 2) = Inr shelf_rfdetr_result \<and>
   predict_rfdetr_route bobs_store shelf_detections ''img'' ''abc'' (1 / 2) None alice ''p-9'' 9 =
     (bobs_store, Inr (Duplicate (p_id bobs_rfdetr_record))) \<and>
   bobs_yolo_record \<in> set (predictions bobs_store) \<and>
   p_image_hash bobs_yolo_record = Some ''abc'' \<and>
   p_model bobs_yolo_record = ''yolo'' \<and>
   p_yolo_threshold bobs_yolo_record = Some (1 / 4) \<and>
   p_user_id bobs_yolo_record \<noteq> Some (u_id alice) \<and>
   predict_yolo shelf_backend (1 / 4) = Inr shelf_yolo_result \<and>
   predict_yolo_route bobs_store shelf_backend ''img'' ''abc'' (1 / 4) None alice ''p-9'' 9 =
     (bobs_store, Inr (Duplicate (p_id bobs_yolo_record))) \<and>
   bobs_both_record \<in> set (predictions bobs_store) \<and>
   p_image_hash bobs_both_record = Some ''abc'' \<and>
   p_model bobs_both_record = ''both'' \<and>
   p_rfdetr_threshold bobs_both_record = Some (1 / 2) \<and>
   p_yolo_threshold bobs_both_record = Some (1 / 4) \<and>
   p_user_id bobs_both_record \<noteq> Some (u_id alice) \<and>
   predict_both_route bobs_store shelf_detections shelf_backend ''img'' ''abc'' (1 / 2) (1 / 4)
       None alice ''p-9'' 9 =
     (bobs_store, Inr (Duplicate (p_id bobs_both_record))) \<and>
   predict_both_route bobs_store shelf_detections shelf_backend ''img'' ''abc'' (1 / 2) (1 / 4)
       None alice ''p-9'' 9 =
   predict_both_route bobs_store shelf_detections shelf_backend ''img'' ''abc'' (1 / 2) (1 / 4)
       None bob ''p-9'' 9"
  using C10_lookup_ignores_owner
    [where other = bobs_rfdetr_record and db = bobs_store and h = "''abc''" and thr = "1 / 2"
       and u = alice and u' = bob and d = shelf_detections and res = shelf_rfdetr_result
       and ?b64.0 = "''img''" and comment = None and new_id = "''p-9''" and now = 9
       and m = shelf_backend and rt = "1 / 2" and yt = "1 / 4"
       and rres = shelf_rfdetr_result and yres = shelf_yolo_result]
    C10_lookup_ignores_owner
    [where other = bobs_yolo_record and db = bobs_store and h = "''abc''" and thr = "1 / 4"
       and u = alice and u' = bob and d = shelf_detections and res = shelf_yolo_result
       and ?b64.0 = "''img''" and comment = None and new_id = "''p-9''" and now = 9
       and m = shelf_backend and rt = "1 / 2" and yt = "1 / 4"
       and rres = shelf_rfdetr_result and yres = shelf_yolo_result]
    C10_lookup_ignores_owner
    [where other = bobs_both_record and db = bobs_store and h = "''abc''" and thr = "1 / 2"
       and u = alice and u' = bob and d = shelf_detections and res = shelf_rfdetr_result
       and ?b64.0 = "''img''" and comment = None and new_id = "''p-9''" and now = 9
       and m = shelf_backend and rt = "1 / 2" and yt = "1 / 4"
       and rres = shelf_rfdetr_result and yres = shelf_yolo_result]
  by (simp add: example_eval store_eval normaliser_eval)

end
